theory Spec2Isabelle
  imports Complex_Main "HOL-Library.Word"
begin

unbundle bit_operations_syntax

section \<open>Chat backends: \<open>modules/local_llm.py\<close> and \<open>modules/cloud_fallback.py\<close>\<close>

text \<open>
  A chat message is a role and a content. The content written by the backend is whatever the
  HTTP reply carried, which can be JSON \<open>null\<close> (Python \<open>None\<close>), so contents are optional
  strings. A backend call either raises inside the method's \<open>try\<close> block (connection error,
  timeout, non-2xx status, malformed payload) or returns the parsed content.
\<close>

datatype role = System | User | Assistant

type_synonym message = "role \<times> string option"

type_synonym history = "message list"

datatype api_result = Raises | Returns "string option"

text \<open>Python truthiness of a value that is \<open>None\<close> or a \<open>str\<close>.\<close>

definition truthy :: "string option \<Rightarrow> bool" where
  "truthy r = (case r of None \<Rightarrow> False | Some s \<Rightarrow> s \<noteq> [])"

text \<open>The request body: optional system prompt, then the history, then the user message.\<close>

definition build_messages :: "string option \<Rightarrow> history \<Rightarrow> string \<Rightarrow> message list" where
  "build_messages system_prompt hist msg =
     (if truthy system_prompt then [(System, system_prompt)] else [])
       @ hist @ [(User, Some msg)]"

text \<open>
  The history update that follows every successful call: two appends, then
  \<open>if len(h) > 10: h = h[-10:]\<close>.
\<close>

definition update_history :: "history \<Rightarrow> string \<Rightarrow> string option \<Rightarrow> history" where
  "update_history hist msg assistant_message =
     (let h = (hist @ [(User, Some msg)]) @ [(Assistant, assistant_message)]
      in if length h > 10 then drop (length h - 10) h else h)"

text \<open>
  \<open>LocalLLM.chat\<close> and \<open>CloudFallback.chat\<close>: the first argument answers the HTTP request.
  An exception anywhere in the \<open>try\<close> block leaves the history as it was and returns \<open>None\<close>.
\<close>

definition LocalLLM_chat ::
  "(message list \<Rightarrow> api_result) \<Rightarrow> history \<Rightarrow> string \<Rightarrow> string option
     \<Rightarrow> history \<times> string option" where
  "LocalLLM_chat post hist msg system_prompt =
     (case post (build_messages system_prompt hist msg) of
        Raises \<Rightarrow> (hist, None)
      | Returns assistant_message \<Rightarrow>
          (update_history hist msg assistant_message, assistant_message))"

definition CloudFallback_chat ::
  "(message list \<Rightarrow> api_result) \<Rightarrow> history \<Rightarrow> string \<Rightarrow> string option
     \<Rightarrow> history \<times> string option" where
  "CloudFallback_chat post hist msg system_prompt =
     (case post (build_messages system_prompt hist msg) of
        Raises \<Rightarrow> (hist, None)
      | Returns assistant_message \<Rightarrow>
          (update_history hist msg assistant_message, assistant_message))"

text \<open>
  \<open>CloudFallback.chat_stream\<close> is a generator. The HTTP reply is a list of \<open>content\<close> deltas
  and the way the stream stops: it ends (\<open>Ended\<close>), or an exception is raised at the request
  or between two deltas and the generator's own handler stops it there (\<open>Caught\<close>), or an
  exception gets past that handler to the consumer (\<open>Escaped\<close>: the handler catches every
  \<open>Exception\<close>, so this is an exception raised by the handler's own \<open>print\<close>). Empty deltas
  are not yielded. The history is updated only when the stream ended.
\<close>

datatype stream_end = Ended | Caught | Escaped

datatype stream_reply = Stream "string list" stream_end

definition CloudFallback_chat_stream ::
  "(message list \<Rightarrow> stream_reply) \<Rightarrow> history \<Rightarrow> string \<Rightarrow> string option
     \<Rightarrow> history \<times> string list \<times> bool" where
  "CloudFallback_chat_stream post hist msg system_prompt =
     (case post (build_messages system_prompt hist msg) of
        Stream contents e \<Rightarrow>
          (let yielded = filter (\<lambda>content. content \<noteq> []) contents
           in (if e = Ended then update_history hist msg (Some (concat yielded)) else hist,
               yielded, e = Escaped)))"

text \<open>Whitespace as \<open>str.strip\<close> and the regular expression class \<open>\s\<close> see it (code points below 256).\<close>

definition is_space :: "char \<Rightarrow> bool" where
  "is_space c = (let n = (of_char c :: nat)
                 in (9 \<le> n \<and> n \<le> 13) \<or> (28 \<le> n \<and> n \<le> 32) \<or> n = 133 \<or> n = 160)"

definition strip :: "string \<Rightarrow> string" where
  "strip s = rev (dropWhile is_space (rev (dropWhile is_space s)))"

text \<open>
  The vision calls. \<open>LocalLLM.analyze_image\<close> returns \<open>result.get("response", "").strip()\<close>
  (a \<open>null\<close> response makes \<open>strip\<close> raise, which the handler turns into \<open>None\<close>);
  \<open>CloudFallback.analyze_image\<close> returns the content as it is.
\<close>

definition LocalLLM_analyze_image :: "api_result \<Rightarrow> string option" where
  "LocalLLM_analyze_image reply =
     (case reply of Raises \<Rightarrow> None | Returns None \<Rightarrow> None | Returns (Some s) \<Rightarrow> Some (strip s))"

definition CloudFallback_analyze_image :: "api_result \<Rightarrow> string option" where
  "CloudFallback_analyze_image reply = (case reply of Raises \<Rightarrow> None | Returns c \<Rightarrow> c)"

section \<open>Routing policy: \<open>modules/hybrid_brain.py\<close>\<close>

text \<open>
  The counters of \<open>HybridBrain.stats\<close>, the two backends' histories, the two availability
  flags fixed by the constructor, and a log of the HTTP calls made so far (a ghost field:
  the code keeps no such log; it is what "an attempt on a backend" means).
\<close>

record routing_stats =
  local_requests :: nat
  cloud_requests :: nat
  local_failures :: nat
  cloud_failures :: nat

datatype backend_call =
  LocalChat string | LocalVision string | CloudChat string | CloudStream string | CloudVision string

record brain =
  local_available :: bool
  cloud_available :: bool
  stats :: routing_stats
  local_llm :: history
  cloud :: history
  calls :: "backend_call list"

text \<open>
  What the brain reads from outside: \<open>Config.MODE\<close>, \<open>Config.get_system_prompt()\<close>, the
  file system, the console, and the replies of the two services. A reply may depend on the
  request and on how many calls were made before it, so a service can fail once and answer
  later. The console matters at one \<open>print\<close>, the one of the vision context (lines 126 and 238),
  whose text carries the first 50 characters of what the vision model wrote:
  \<open>console_rejects\<close> says for which excerpts that \<open>print\<close> raises.
\<close>

record world =
  MODE :: string
  system_prompt :: string
  path_exists :: "string \<Rightarrow> bool"
  console_rejects :: "string \<Rightarrow> bool"
  ollama_chat :: "nat \<Rightarrow> message list \<Rightarrow> api_result"
  ollama_vision :: "nat \<Rightarrow> string \<Rightarrow> string \<Rightarrow> api_result"
  openrouter_chat :: "nat \<Rightarrow> message list \<Rightarrow> api_result"
  openrouter_stream :: "nat \<Rightarrow> message list \<Rightarrow> stream_reply"
  openrouter_vision :: "nat \<Rightarrow> string \<Rightarrow> string \<Rightarrow> api_result"

definition HybridBrain_init :: "bool \<Rightarrow> bool \<Rightarrow> brain" where
  "HybridBrain_init local_ok cloud_ok =
     \<lparr>local_available = local_ok, cloud_available = cloud_ok,
      stats = \<lparr>local_requests = 0, cloud_requests = 0, local_failures = 0, cloud_failures = 0\<rparr>,
      local_llm = [], cloud = [], calls = []\<rparr>"

text \<open>The backend methods run on the brain's state, each HTTP call entered in the log.\<close>

definition local_llm_chat :: "world \<Rightarrow> brain \<Rightarrow> string \<Rightarrow> string option \<Rightarrow> brain \<times> string option" where
  "local_llm_chat w b msg sp =
     (case LocalLLM_chat (ollama_chat w (length (calls b))) (local_llm b) msg sp of
        (h, r) \<Rightarrow> (b\<lparr>local_llm := h, calls := calls b @ [LocalChat msg]\<rparr>, r))"

definition cloud_chat :: "world \<Rightarrow> brain \<Rightarrow> string \<Rightarrow> string option \<Rightarrow> brain \<times> string option" where
  "cloud_chat w b msg sp =
     (case CloudFallback_chat (openrouter_chat w (length (calls b))) (cloud b) msg sp of
        (h, r) \<Rightarrow> (b\<lparr>cloud := h, calls := calls b @ [CloudChat msg]\<rparr>, r))"

definition cloud_chat_stream ::
  "world \<Rightarrow> brain \<Rightarrow> string \<Rightarrow> string option \<Rightarrow> brain \<times> string list \<times> bool" where
  "cloud_chat_stream w b msg sp =
     (case CloudFallback_chat_stream (openrouter_stream w (length (calls b))) (cloud b) msg sp of
        (h, yielded, escaped) \<Rightarrow>
          (b\<lparr>cloud := h, calls := calls b @ [CloudStream msg]\<rparr>, yielded, escaped))"

definition local_llm_analyze_image :: "world \<Rightarrow> brain \<Rightarrow> string \<Rightarrow> string \<Rightarrow> brain \<times> string option" where
  "local_llm_analyze_image w b image_path question =
     (b\<lparr>calls := calls b @ [LocalVision image_path]\<rparr>,
      LocalLLM_analyze_image (ollama_vision w (length (calls b)) image_path question))"

definition cloud_analyze_image :: "world \<Rightarrow> brain \<Rightarrow> string \<Rightarrow> string \<Rightarrow> brain \<times> string option" where
  "cloud_analyze_image w b image_path question =
     (b\<lparr>calls := calls b @ [CloudVision image_path]\<rparr>,
      CloudFallback_analyze_image (openrouter_vision w (length (calls b)) image_path question))"

text \<open>\<open>LocalLLM.chat_with_vision\<close>: both of its \<open>chat\<close> calls go without a system prompt.\<close>

definition local_llm_chat_with_vision ::
  "world \<Rightarrow> brain \<Rightarrow> string \<Rightarrow> string \<Rightarrow> brain \<times> string option" where
  "local_llm_chat_with_vision w b msg image_path =
     (if image_path \<noteq> [] \<and> path_exists w image_path then
        (case local_llm_analyze_image w b image_path ''Describe what you see in detail.'' of
           (b1, vision_context) \<Rightarrow>
             if truthy vision_context then
               local_llm_chat w b1
                 (''[I can see: '' @ the vision_context @ '']'' @ [CHR 0x0A, CHR 0x0A]
                    @ ''User question: '' @ msg) None
             else local_llm_chat w b1 msg None)
      else local_llm_chat w b msg None)"

definition inc_local_requests :: "brain \<Rightarrow> brain" where
  "inc_local_requests b = b\<lparr>stats := (stats b)\<lparr>local_requests := local_requests (stats b) + 1\<rparr>\<rparr>"

definition inc_cloud_requests :: "brain \<Rightarrow> brain" where
  "inc_cloud_requests b = b\<lparr>stats := (stats b)\<lparr>cloud_requests := cloud_requests (stats b) + 1\<rparr>\<rparr>"

definition inc_local_failures :: "brain \<Rightarrow> brain" where
  "inc_local_failures b = b\<lparr>stats := (stats b)\<lparr>local_failures := local_failures (stats b) + 1\<rparr>\<rparr>"

definition inc_cloud_failures :: "brain \<Rightarrow> brain" where
  "inc_cloud_failures b = b\<lparr>stats := (stats b)\<lparr>cloud_failures := cloud_failures (stats b) + 1\<rparr>\<rparr>"

text \<open>
  \<open>HybridBrain.analyze_image\<close>: local vision first, cloud vision next, a fixed sentence last.
  In the pairs below the second component is the value of an early \<open>return\<close>, if any.
\<close>

definition HybridBrain_analyze_image :: "world \<Rightarrow> brain \<Rightarrow> string \<Rightarrow> string \<Rightarrow> brain \<times> string" where
  "HybridBrain_analyze_image w b image_path question =
     (let (b1, ret1) =
            (if local_available b then
               (case local_llm_analyze_image w b image_path question of
                  (b', result) \<Rightarrow>
                    if truthy result then (inc_local_requests b', result)
                    else (inc_local_failures b', None))
             else (b, None))
      in case ret1 of
           Some r \<Rightarrow> (b1, r)
         | None \<Rightarrow>
             (let (b2, ret2) =
                    (if cloud_available b1 then
                       (case cloud_analyze_image w b1 image_path question of
                          (b', result) \<Rightarrow>
                            if truthy result then (inc_cloud_requests b', result)
                            else (inc_cloud_failures b', None))
                     else (b1, None))
              in case ret2 of
                   Some r \<Rightarrow> (b2, r)
                 | None \<Rightarrow> (b2, ''I couldn't analyze the img.'')))"

text \<open>
  \<open>str.lower\<close> and the substring test \<open>kw in s\<close>. A \<open>char\<close> is a code point below 256: the
  capitals are A to Z and the Latin-1 capitals (192 to 222 without the multiplication sign
  215), each 32 below its small letter.
\<close>

definition lower_char :: "char \<Rightarrow> char" where
  "lower_char c =
     (let n = (of_char c :: nat) in
      if (65 \<le> n \<and> n \<le> 90) \<or> (192 \<le> n \<and> n \<le> 222 \<and> n \<noteq> 215) then char_of (n + 32) else c)"

definition lower :: "string \<Rightarrow> string" where
  "lower s = map lower_char s"

definition startswith :: "string \<Rightarrow> string \<Rightarrow> bool" where
  "startswith s p = (take (length p) s = p)"

fun str_in :: "string \<Rightarrow> string \<Rightarrow> bool" where
  "str_in kw [] = (kw = [])"
| "str_in kw (c # cs) = (startswith (c # cs) kw \<or> str_in kw cs)"

definition complexity_keywords :: "string list" where
  "complexity_keywords =
     [''analyze'', ''complex'', ''detailed'', ''explain in depth'',
      ''comprehensive'', ''thorough'', ''research'', ''document'']"

text \<open>\<open>HybridBrain._should_use_cloud\<close>. Any mode other than the two forced ones is balanced.\<close>

definition should_use_cloud :: "world \<Rightarrow> brain \<Rightarrow> string \<Rightarrow> bool" where
  "should_use_cloud w b message =
     (if MODE w = ''quality'' then True
      else if MODE w = ''speed'' then False
      else (let message_lower = lower message;
                is_complex = list_ex (\<lambda>kw. str_in kw message_lower) complexity_keywords
            in is_complex \<and> cloud_available b))"

text \<open>
  \<open>HybridBrain._chat_local\<close> and \<open>HybridBrain._chat_cloud\<close>, and below them \<open>HybridBrain.chat\<close>,
  for an image argument that is \<open>None\<close> or a path and a console that accepts what is printed.
  The callees catch their own exceptions, so the handler of \<open>_chat_local\<close> has nothing to
  catch then. The other arguments and consoles follow further down.
\<close>

definition chat_local :: "world \<Rightarrow> brain \<Rightarrow> string \<Rightarrow> string option \<Rightarrow> brain \<times> string option" where
  "chat_local w b message image_path =
     (if truthy image_path then local_llm_chat_with_vision w b message (the image_path)
      else local_llm_chat w b message (Some (system_prompt w)))"

definition inject_vision :: "world \<Rightarrow> brain \<Rightarrow> string \<Rightarrow> string option \<Rightarrow> brain \<times> string" where
  "inject_vision w b message image_path =
     (if truthy image_path then
        (case HybridBrain_analyze_image w b (the image_path) ''Describe this img in detail.'' of
           (b', vision_context) \<Rightarrow>
             if vision_context \<noteq> [] then
               (b', ''[SYSTEM: You see the following: '' @ vision_context @ '']''
                      @ [CHR 0x0A, CHR 0x0A] @ ''User: '' @ message)
             else (b', message))
      else (b, message))"

definition chat_cloud :: "world \<Rightarrow> brain \<Rightarrow> string \<Rightarrow> string option \<Rightarrow> brain \<times> string option" where
  "chat_cloud w b message image_path =
     (case inject_vision w b message image_path of
        (b1, message1) \<Rightarrow> cloud_chat w b1 message1 (Some (system_prompt w)))"

definition apology :: string where
  "apology = ''I'm having trouble processing that right now. Please try again.''"

text \<open>\<open>HybridBrain.chat\<close>. The parameter \<open>use_vision_context\<close> is never read and is left out.\<close>

definition HybridBrain_chat :: "world \<Rightarrow> brain \<Rightarrow> string \<Rightarrow> string option \<Rightarrow> brain \<times> string" where
  "HybridBrain_chat w b message image_path =
     (let use_cloud = should_use_cloud w b message;
          (b1, ret1) =
            (if \<not> use_cloud \<and> local_available b then
               (case chat_local w b message image_path of
                  (b', response) \<Rightarrow>
                    if truthy response then (inc_local_requests b', response)
                    else (inc_local_failures b', None))
             else (b, None))
      in case ret1 of
           Some r \<Rightarrow> (b1, r)
         | None \<Rightarrow>
             (let (b2, ret2) =
                    (if cloud_available b1 then
                       (case chat_cloud w b1 message image_path of
                          (b', response) \<Rightarrow>
                            if truthy response then (inc_cloud_requests b', response)
                            else (inc_cloud_failures b', None))
                     else (b1, None))
              in case ret2 of
                   Some r \<Rightarrow> (b2, r)
                 | None \<Rightarrow> (b2, apology)))"

text \<open>
  What callers pass as \<open>image_path\<close>: nothing, a path, or, as \<open>robot_main.py\<close> does
  (\<open>image_path = state.current_frame\<close>), a video frame, an array, whose truth test raises.
\<close>

datatype image_arg = NoImage | ImagePath string | FrameArray

definition as_path :: "image_arg \<Rightarrow> string option" where
  "as_path img = (case img of ImagePath p \<Rightarrow> Some p | _ \<Rightarrow> None)"

text \<open>
  The image branch, the same statements in \<open>chat_stream\<close> (lines 123 to 127) and in
  \<open>_chat_cloud\<close> (lines 235 to 240), with its exceptions: the truth test of a frame, and the
  \<open>print\<close> of the vision context on a console that rejects it. The third component says
  whether the branch raised; the message is reassigned only when it did not.
\<close>

definition vision_branch :: "world \<Rightarrow> brain \<Rightarrow> string \<Rightarrow> image_arg \<Rightarrow> brain \<times> string \<times> bool" where
  "vision_branch w b message img =
     (case img of
        FrameArray \<Rightarrow> (b, message, True)
      | NoImage \<Rightarrow> (b, message, False)
      | ImagePath p \<Rightarrow>
          if p = [] then (b, message, False)
          else
            (case HybridBrain_analyze_image w b p ''Describe this img in detail.'' of
               (b', vision_context) \<Rightarrow>
                 if vision_context \<noteq> [] then
                   (if console_rejects w (take 50 vision_context) then (b', message, True)
                    else (b', ''[SYSTEM: You see the following: '' @ vision_context @ '']''
                              @ [CHR 0x0A, CHR 0x0A] @ ''User: '' @ message, False))
                 else (b', message, False)))"

text \<open>
  \<open>_chat_local\<close> for any argument: its handler turns the exception of the truth test of a
  frame into \<open>None\<close>, before any call.
\<close>

definition chat_local_any :: "world \<Rightarrow> brain \<Rightarrow> string \<Rightarrow> image_arg \<Rightarrow> brain \<times> string option" where
  "chat_local_any w b message img =
     (case img of
        FrameArray \<Rightarrow> (b, None)
      | _ \<Rightarrow> chat_local w b message (as_path img))"

text \<open>
  \<open>HybridBrain.chat\<close> for any argument and console. \<open>_chat_cloud\<close> has no handler: when its
  image branch raises, \<open>chat\<close> raises to its caller.
\<close>

datatype chat_return = Reply string | ChatRaised

definition HybridBrain_chat_any :: "world \<Rightarrow> brain \<Rightarrow> string \<Rightarrow> image_arg \<Rightarrow> brain \<times> chat_return" where
  "HybridBrain_chat_any w b message img =
     (let use_cloud = should_use_cloud w b message;
          (b1, ret1) =
            (if \<not> use_cloud \<and> local_available b then
               (case chat_local_any w b message img of
                  (b', response) \<Rightarrow>
                    if truthy response then (inc_local_requests b', response)
                    else (inc_local_failures b', None))
             else (b, None))
      in case ret1 of
           Some r \<Rightarrow> (b1, Reply r)
         | None \<Rightarrow>
             if cloud_available b1 then
               (case vision_branch w b1 message img of
                  (b', message1, raised) \<Rightarrow>
                    if raised then (b', ChatRaised)
                    else
                      (case cloud_chat w b' message1 (Some (system_prompt w)) of
                         (b'', response) \<Rightarrow>
                           if truthy response then (inc_cloud_requests b'', Reply (the response))
                           else (inc_cloud_failures b'', Reply apology)))
             else (b1, Reply apology))"

text \<open>
  \<open>HybridBrain.chat_stream\<close>: what it yields and whether it raised to its consumer. The mode
  is not read here. The \<open>try\<close> block holds the image branch and the stream; an exception of
  either reaches the handler, which counts a cloud failure. The chunks already yielded stay
  yielded, and the non-streamed \<open>chat\<close> runs, outside the \<open>try\<close> block, on the message as the
  block left it.
\<close>

definition HybridBrain_chat_stream ::
  "world \<Rightarrow> brain \<Rightarrow> string \<Rightarrow> image_arg \<Rightarrow> brain \<times> string list \<times> bool" where
  "HybridBrain_chat_stream w b message img =
     (let (b1, message1, yielded, returned) =
            (if cloud_available b then
               (case vision_branch w b message img of
                  (b', m', raised) \<Rightarrow>
                    if raised then (inc_cloud_failures b', m', [], False)
                    else
                      (case cloud_chat_stream w b' m' (Some (system_prompt w)) of
                         (b'', chunks, escaped) \<Rightarrow>
                           if escaped then (inc_cloud_failures b'', m', chunks, False)
                           else (inc_cloud_requests b'', m', chunks, True)))
             else (b, message, [], False))
      in if returned then (b1, yielded, False)
         else (case HybridBrain_chat_any w b1 message1 img of
                 (b2, Reply response) \<Rightarrow>
                   (b2, yielded @ (if response \<noteq> [] then [response] else []), False)
               | (b2, ChatRaised) \<Rightarrow> (b2, yielded, True)))"

definition reset_conversation :: "brain \<Rightarrow> brain" where
  "reset_conversation b =
     (let b1 = (if local_available b then b\<lparr>local_llm := []\<rparr> else b)
      in if cloud_available b1 then b1\<lparr>cloud := []\<rparr> else b1)"

text \<open>
  The public methods of the brain as requests, and a caller that makes any number of them
  one after the other on the same brain.
\<close>

datatype brain_request =
  Chat string "string option"
| ChatStream string image_arg
| AnalyzeImage string string
| ResetConversation

fun serve :: "world \<Rightarrow> brain \<Rightarrow> brain_request \<Rightarrow> brain" where
  "serve w b (Chat message image_path) = fst (HybridBrain_chat w b message image_path)"
| "serve w b (ChatStream message image_path) = fst (HybridBrain_chat_stream w b message image_path)"
| "serve w b (AnalyzeImage image_path question) = fst (HybridBrain_analyze_image w b image_path question)"
| "serve w b ResetConversation = reset_conversation b"

fun serve_all :: "world \<Rightarrow> brain \<Rightarrow> brain_request list \<Rightarrow> brain" where
  "serve_all w b [] = b"
| "serve_all w b (r # rs) = serve_all w (serve w b r) rs"

text \<open>
  The chat attempts in a call log, in order: which backend was asked to answer, and whether
  streamed. Vision calls are not chat attempts.
\<close>

datatype attempt = LocalAttempt | RemoteAttempt | RemoteStream

fun attempt_of :: "backend_call \<Rightarrow> attempt option" where
  "attempt_of (LocalChat m) = Some LocalAttempt"
| "attempt_of (CloudChat m) = Some RemoteAttempt"
| "attempt_of (CloudStream m) = Some RemoteStream"
| "attempt_of (LocalVision p) = None"
| "attempt_of (CloudVision p) = None"

definition attempts :: "brain \<Rightarrow> attempt list" where
  "attempts b = List.map_filter attempt_of (calls b)"

text \<open>The bound on both histories, as an invariant of the brain.\<close>

definition histories_bounded :: "brain \<Rightarrow> bool" where
  "histories_bounded b = (length (local_llm b) \<le> 10 \<and> length (cloud b) \<le> 10)"

text \<open>A world for examples: Ollama answers every chat with \<open>ok\<close>, OpenRouter always fails.\<close>

definition local_only_world :: world where
  "local_only_world =
     \<lparr>MODE = ''balanced'', system_prompt = ''You are Ava.'', path_exists = (\<lambda>p. False),
      console_rejects = (\<lambda>t. False),
      ollama_chat = (\<lambda>n msgs. Returns (Some ''ok'')),
      ollama_vision = (\<lambda>n p q. Raises),
      openrouter_chat = (\<lambda>n msgs. Raises),
      openrouter_stream = (\<lambda>n msgs. Stream [] Caught),
      openrouter_vision = (\<lambda>n p q. Raises)\<rparr>"




text \<open>The counters only grow: the order in which one record of counters is below another.\<close>

definition stats_le :: "routing_stats \<Rightarrow> routing_stats \<Rightarrow> bool" where
  "stats_le s t = (local_requests s \<le> local_requests t \<and> cloud_requests s \<le> cloud_requests t
      \<and> local_failures s \<le> local_failures t \<and> cloud_failures s \<le> cloud_failures t)"

section \<open>Endpointing: \<open>modules/continuous_voice.py\<close>\<close>

text \<open>
  A chunk is a block of mono samples, 32-bit floats in the source; every such value is a
  real number. The volume \<open>np.sqrt(np.mean(chunk**2))\<close> is computed in 32-bit floating
  point. It is not defined here: the engines take it as a parameter \<open>volume_of\<close>, the
  function from a chunk to the value the source computes for it, and every property below
  holds whatever that function is.
\<close>

type_synonym samples = "real list"

text \<open>The attributes \<open>self.threshold\<close> and \<open>self.silence_limit\<close>, with the constructor's values.\<close>

record settings =
  threshold :: real
  silence_limit :: real

definition default_settings :: settings where
  "default_settings = \<lparr>threshold = 0.02, silence_limit = 2.0\<rparr>"

text \<open>The three local variables of \<open>_process_audio_stream\<close>.\<close>

record endpoint_state =
  speech_buffer :: "samples list"
  silence_start :: "real option"
  is_speaking :: bool

definition endpoint_init :: endpoint_state where
  "endpoint_init = \<lparr>speech_buffer = [], silence_start = None, is_speaking = False\<rparr>"

text \<open>
  What one iteration of the loop reads from outside: the chunk taken from the queue, the
  value of \<open>self.robot_state and self.robot_state.is_speaking\<close>, and the two readings of
  \<open>time.time()\<close>, the one stored in \<open>silence_start\<close> and the one compared with it.
\<close>

record capture =
  chunk :: samples
  agent_speaking :: bool
  clock_mark :: real
  clock_check :: real

text \<open>
  One iteration of the loop of \<open>_process_audio_stream\<close>. The second component is the
  \<open>full_audio\<close> handed to recognition, when the iteration finalizes an utterance. Recognition
  catches its own exceptions and the callback of this repository only starts a thread, so the
  reset after them is always reached.
\<close>

definition process_chunk ::
  "(samples \<Rightarrow> real) \<Rightarrow> settings \<Rightarrow> endpoint_state \<Rightarrow> capture
     \<Rightarrow> endpoint_state \<times> samples option" where
  "process_chunk volume_of cfg s c =
     (let volume = volume_of (chunk c) in
      if agent_speaking c then
        (if is_speaking s then (s\<lparr>is_speaking := False, speech_buffer := []\<rparr>, None)
         else (s, None))
      else if volume > threshold cfg then
        (s\<lparr>is_speaking := True, speech_buffer := speech_buffer s @ [chunk c],
            silence_start := None\<rparr>, None)
      else if is_speaking s then
        (let buf = speech_buffer s @ [chunk c];
             started = (case silence_start s of None \<Rightarrow> clock_mark c | Some t \<Rightarrow> t)
         in if clock_check c - started > silence_limit cfg then
              (\<lparr>speech_buffer = [], silence_start = None, is_speaking = False\<rparr>,
               Some (concat buf))
            else (s\<lparr>speech_buffer := buf, silence_start := Some started\<rparr>, None))
      else (s, None))"

text \<open>The loop over the chunks that arrive, with what each iteration finalized.\<close>

fun process_audio_stream ::
  "(samples \<Rightarrow> real) \<Rightarrow> settings \<Rightarrow> endpoint_state \<Rightarrow> capture list
     \<Rightarrow> endpoint_state \<times> samples option list" where
  "process_audio_stream volume_of cfg s [] = (s, [])"
| "process_audio_stream volume_of cfg s (c # cs) =
     (case process_chunk volume_of cfg s c of
        (s1, out) \<Rightarrow>
          (case process_audio_stream volume_of cfg s1 cs of
             (s2, outs) \<Rightarrow> (s2, out # outs)))"

definition utterances :: "samples option list \<Rightarrow> samples list" where
  "utterances outs = List.map_filter (\<lambda>out. out) outs"

definition loud :: "(samples \<Rightarrow> real) \<Rightarrow> settings \<Rightarrow> capture \<Rightarrow> bool" where
  "loud volume_of cfg c = (volume_of (chunk c) > threshold cfg)"

section \<open>Host-side endpointing: \<open>audio_stream\<close> in \<open>pc_server.py\<close>\<close>

text \<open>
  The host receives 16-bit samples and scales them:
  \<open>np.frombuffer(data, dtype=np.int16).astype(np.float32) / 32767.0\<close>.
\<close>

definition decode_pcm :: "16 word list \<Rightarrow> samples" where
  "decode_pcm data = map (\<lambda>v. real_of_int (sint v) / 32767) data"

record host_state =
  audio_buffer :: "samples list"
  silence_count :: nat

definition host_init :: host_state where
  "host_init = \<lparr>audio_buffer = [], silence_count = 0\<rparr>"

definition silence_threshold :: nat where
  "silence_threshold = 8"

text \<open>
  One iteration of the receive loop, for a chunk already decoded. Whatever happens to the
  transcription and the reply, the buffer and the counter are reset after a finalization.
\<close>

definition host_chunk ::
  "(samples \<Rightarrow> real) \<Rightarrow> host_state \<Rightarrow> samples \<Rightarrow> host_state \<times> samples option" where
  "host_chunk volume_of s audio_chunk =
     (let volume = volume_of audio_chunk in
      if volume > 0.02 then
        (\<lparr>audio_buffer = audio_buffer s @ [audio_chunk], silence_count = 0\<rparr>, None)
      else if length (audio_buffer s) > 0 then
        (let buf = audio_buffer s @ [audio_chunk];
             n = silence_count s + 1
         in if n \<ge> silence_threshold then
              (\<lparr>audio_buffer = [], silence_count = 0\<rparr>, Some (concat buf))
            else (\<lparr>audio_buffer = buf, silence_count = n\<rparr>, None))
      else (s, None))"

fun audio_stream ::
  "(samples \<Rightarrow> real) \<Rightarrow> host_state \<Rightarrow> 16 word list list
     \<Rightarrow> host_state \<times> samples option list" where
  "audio_stream volume_of s [] = (s, [])"
| "audio_stream volume_of s (data # rest) =
     (case host_chunk volume_of s (decode_pcm data) of
        (s1, out) \<Rightarrow>
          (case audio_stream volume_of s1 rest of (s2, outs) \<Rightarrow> (s2, out # outs)))"

text \<open>
  For examples. The exact root mean square: on a block whose samples are all 0, all 0.5 or
  all 1, every intermediate result of the 32-bit computation is itself a 32-bit float (the
  squares 0, 0.25 and 1, their partial sums, the mean and its root), so there the source
  computes exactly this value. Blocks of 4000 samples as the edge sends them, a full-scale
  one (every sample 32767, which the host scales to 1) and a silent one; a block of samples
  0.5, and settings whose threshold has been adjusted to 0.5, the volume of that block.
  A capture of a block at a time \<open>t\<close>, flag clear.
\<close>

definition rms :: "samples \<Rightarrow> real" where
  "rms block = sqrt (sum_list (map (\<lambda>x. x\<^sup>2) block) / real (length block))"

definition pcm_loud :: "16 word list" where
  "pcm_loud = replicate 4000 32767"

definition pcm_quiet :: "16 word list" where
  "pcm_quiet = replicate 4000 0"

definition half_block :: samples where
  "half_block = replicate 4000 0.5"

definition half_settings :: settings where
  "half_settings = \<lparr>threshold = 0.5, silence_limit = 2.0\<rparr>"

definition heard_at :: "samples \<Rightarrow> real \<Rightarrow> capture" where
  "heard_at block t = \<lparr>chunk = block, agent_speaking = False, clock_mark = t, clock_check = t\<rparr>"

text \<open>The relation between the two engines while they agree.\<close>

definition same_buffer :: "endpoint_state \<Rightarrow> host_state \<Rightarrow> bool" where
  "same_buffer s h = (speech_buffer s = audio_buffer h \<and> is_speaking s = (audio_buffer h \<noteq> []))"

text \<open>
  A run of nine blocks at the capture cadence of 0.25 s, one loud block and eight silent
  ones, as the host receives it and as the co-located engine hears it.
\<close>

definition nine_blocks :: "16 word list list" where
  "nine_blocks =
     [pcm_loud, pcm_quiet, pcm_quiet, pcm_quiet, pcm_quiet,
      pcm_quiet, pcm_quiet, pcm_quiet, pcm_quiet]"

definition nine_captures :: "capture list" where
  "nine_captures =
     [heard_at (decode_pcm pcm_loud) 0, heard_at (decode_pcm pcm_quiet) 0.25,
      heard_at (decode_pcm pcm_quiet) 0.5, heard_at (decode_pcm pcm_quiet) 0.75,
      heard_at (decode_pcm pcm_quiet) 1, heard_at (decode_pcm pcm_quiet) 1.25,
      heard_at (decode_pcm pcm_quiet) 1.5, heard_at (decode_pcm pcm_quiet) 1.75,
      heard_at (decode_pcm pcm_quiet) 2]"

section \<open>Sentence segmenter: \<open>LocalTTS.speak_stream\<close> in \<open>modules/local_tts.py\<close>\<close>

text \<open>
  \<open>re.compile(r'[.!?]\s+').search(buffer)\<close>: the leftmost terminator followed by whitespace,
  with all the whitespace that follows it. The result is the buffer up to the end of the
  match and the buffer after it.
\<close>

definition sentence_ending :: "char \<Rightarrow> bool" where
  "sentence_ending c = (c = CHR ''.'' \<or> c = CHR ''!'' \<or> c = CHR ''?'')"

fun search_ending :: "string \<Rightarrow> (string \<times> string) option" where
  "search_ending [] = None"
| "search_ending (c # cs) =
     (if sentence_ending c \<and> cs \<noteq> [] \<and> is_space (hd cs) then
        Some (c # takeWhile is_space cs, dropWhile is_space cs)
      else (case search_ending cs of
              None \<Rightarrow> None
            | Some (upto_end, after_end) \<Rightarrow> Some (c # upto_end, after_end)))"

text \<open>
  The \<open>for\<close> loop of \<open>speak_stream\<close>: the sentences passed to \<open>speak\<close> while the fragments
  arrive, and the buffer left when the stream ends. Each fragment is followed by one search.
\<close>

fun speak_stream_loop :: "string \<Rightarrow> string list \<Rightarrow> string list \<times> string" where
  "speak_stream_loop sentence_buffer [] = ([], sentence_buffer)"
| "speak_stream_loop sentence_buffer (fragment # rest) =
     (let buffer = sentence_buffer @ fragment in
      case search_ending buffer of
        None \<Rightarrow> speak_stream_loop buffer rest
      | Some (upto_end, after_end) \<Rightarrow>
          (let sentence = strip upto_end in
           case speak_stream_loop after_end rest of
             (spoken, left) \<Rightarrow> ((if sentence \<noteq> [] then [sentence] else []) @ spoken, left)))"

text \<open>What is spoken after the stream ended, and everything spoken, in order.\<close>

definition speak_remaining :: "string \<Rightarrow> string list" where
  "speak_remaining sentence_buffer =
     (if strip sentence_buffer \<noteq> [] then [strip sentence_buffer] else [])"

definition speak_stream :: "string list \<Rightarrow> string list" where
  "speak_stream text_stream =
     (case speak_stream_loop [] text_stream of
        (spoken, left) \<Rightarrow> spoken @ speak_remaining left)"

text \<open>\<open>LocalTTS._split_sentences\<close>, the non-streamed sibling: \<open>re.split(r'(?<=[.!?])\s+', text)\<close>,
  every part stripped, empty parts dropped.\<close>

function re_split :: "string \<Rightarrow> string \<Rightarrow> string list" where
  "re_split part [] = [part]"
| "re_split part (c # cs) =
     (if sentence_ending c \<and> cs \<noteq> [] \<and> is_space (hd cs) then
        (part @ [c]) # re_split [] (dropWhile is_space cs)
      else re_split (part @ [c]) cs)"
  by pat_completeness auto
termination
  by (relation "measure (\<lambda>(part, s). length s)")
     (auto simp: length_dropWhile_le less_Suc_eq_le)

definition split_sentences :: "string \<Rightarrow> string list" where
  "split_sentences text = filter (\<lambda>s. s \<noteq> []) (map strip (re_split [] text))"

section \<open>Reply audio on the wire: \<open>pc_server.py\<close> to \<open>pi_client.py\<close>\<close>

text \<open>
  Samples are bit patterns: \<open>sf.read(path)\<close> is called without \<open>dtype\<close> and so returns 64-bit
  floats (the default of \<open>soundfile.read\<close>), the edge reads 32-bit floats. \<open>tobytes\<close> lays each
  sample out in little-endian order; \<open>bytes.hex\<close> writes two lower-case digits per byte.
\<close>

type_synonym byte = "8 word"

definition word_bytes :: "'a::len word \<Rightarrow> byte list" where
  "word_bytes v = map (\<lambda>i. ucast (drop_bit (8 * i) v)) [0..<LENGTH('a) div 8]"

definition tobytes :: "'a::len word list \<Rightarrow> byte list" where
  "tobytes audio_data = concat (map word_bytes audio_data)"

definition hex_digit :: "nat \<Rightarrow> char" where
  "hex_digit n = ''0123456789abcdef'' ! n"

definition hex :: "byte list \<Rightarrow> string" where
  "hex bs = concat (map (\<lambda>b. [hex_digit (unat b div 16), hex_digit (unat b mod 16)]) bs)"

text \<open>
  \<open>bytes.fromhex\<close>: two hexadecimal digits of either case per byte, ASCII whitespace skipped
  between bytes, \<open>ValueError\<close> otherwise.
\<close>

definition digit_value :: "char \<Rightarrow> nat option" where
  "digit_value c =
     (let n = (of_char c :: nat) in
      if 48 \<le> n \<and> n \<le> 57 then Some (n - 48)
      else if 97 \<le> n \<and> n \<le> 102 then Some (n - 87)
      else if 65 \<le> n \<and> n \<le> 70 then Some (n - 55)
      else None)"

definition ascii_space :: "char \<Rightarrow> bool" where
  "ascii_space c = (let n = (of_char c :: nat) in (9 \<le> n \<and> n \<le> 13) \<or> n = 32)"

fun fromhex :: "string \<Rightarrow> byte list option" where
  "fromhex [] = Some []"
| "fromhex [c] = (if ascii_space c then Some [] else None)"
| "fromhex (c # d # rest) =
     (if ascii_space c then fromhex (d # rest)
      else (case (digit_value c, digit_value d) of
              (Some hi, Some lo) \<Rightarrow>
                (case fromhex rest of None \<Rightarrow> None | Some bs \<Rightarrow> Some (of_nat (16 * hi + lo) # bs))
            | _ \<Rightarrow> None))"

text \<open>
  \<open>np.frombuffer(bs, dtype=np.float32)\<close>: four bytes per sample, little-endian;
  \<open>ValueError\<close> when the size is not a multiple of four.
\<close>

definition le32 :: "byte \<Rightarrow> byte \<Rightarrow> byte \<Rightarrow> byte \<Rightarrow> 32 word" where
  "le32 b0 b1 b2 b3 =
     ucast b0 OR push_bit 8 (ucast b1) OR push_bit 16 (ucast b2) OR push_bit 24 (ucast b3)"

fun frombuffer_f32 :: "byte list \<Rightarrow> 32 word list option" where
  "frombuffer_f32 [] = Some []"
| "frombuffer_f32 (b0 # b1 # b2 # b3 # rest) =
     (case frombuffer_f32 rest of None \<Rightarrow> None | Some vs \<Rightarrow> Some (le32 b0 b1 b2 b3 # vs))"
| "frombuffer_f32 bs = None"

text \<open>
  The JSON object of a frame, as \<open>json.dumps\<close> writes it and \<open>json.loads\<close> reads it back; the
  audio frame that lines 206 to 210 of \<open>pc_server.py\<close> build from the buffer \<open>sf.read\<close>
  returned (whether these lines are reached is in \<open>reply_frames\<close> below); and what the edge
  does with a frame it receives.
\<close>

record duplex_frame =
  frame_type :: "string option"
  frame_text :: "string option"
  frame_data :: "string option"
  frame_samplerate :: "nat option"

definition send_audio :: "64 word list \<Rightarrow> nat \<Rightarrow> duplex_frame" where
  "send_audio audio_data sr =
     \<lparr>frame_type = Some ''audio'', frame_text = None,
      frame_data = Some (hex (tobytes audio_data)), frame_samplerate = Some sr\<rparr>"

datatype edge_action = Play "32 word list" nat | Display string | Skip | ReceiveError

definition receive_frame :: "duplex_frame \<Rightarrow> edge_action" where
  "receive_frame frame =
     (if frame_type frame = Some ''audio'' then
        (case frame_data frame of
           None \<Rightarrow> ReceiveError
         | Some d \<Rightarrow>
             (case fromhex d of
                None \<Rightarrow> ReceiveError
              | Some bs \<Rightarrow>
                  (case frombuffer_f32 bs of
                     None \<Rightarrow> ReceiveError
                   | Some audio_data \<Rightarrow>
                       Play audio_data
                         (case frame_samplerate frame of None \<Rightarrow> 22050 | Some sr \<Rightarrow> sr))))
      else if frame_type frame = Some ''text'' then
        (case frame_text frame of None \<Rightarrow> ReceiveError | Some t \<Rightarrow> Display t)
      else Skip)"

text \<open>
  What \<open>LocalTTS.speak\<close> returns: \<open>None\<close>, a path, or, from \<open>speak_premium\<close> called with
  \<open>save_file=False\<close>, the bytes of the HTTP reply; and the truth test the callers apply.
\<close>

datatype speak_return = ReturnsNone | ReturnsPath string | ReturnsBytes "byte list"

definition returned_truthy :: "speak_return \<Rightarrow> bool" where
  "returned_truthy r =
     (case r of ReturnsNone \<Rightarrow> False | ReturnsPath path \<Rightarrow> path \<noteq> [] | ReturnsBytes bs \<Rightarrow> bs \<noteq> [])"

text \<open>
  What synthesis reads from outside: whether ElevenLabs is set up (\<open>self.cloud and
  Config.ELEVENLABS_API_KEY\<close>), the content of its reply to a text (\<open>None\<close> when the request
  raises), whether the local \<open>tts_to_file\<close> succeeds on a text, the names of the files that
  saving writes, and \<open>soundfile.read\<close> on what it is given (\<open>None\<close> when it raises; a
  \<open>bytes\<close> argument is taken as a file name).
\<close>

record tts_world =
  elevenlabs_enabled :: bool
  elevenlabs_reply :: "string \<Rightarrow> byte list option"
  premium_path :: string
  tts_to_file_ok :: "string \<Rightarrow> bool"
  saved_path :: string
  sf_read :: "speak_return \<Rightarrow> (64 word list \<times> nat) option"

text \<open>
  \<open>CloudFallback.speak_premium\<close> and \<open>LocalTTS.speak\<close>. Playing and the cleanup of old files
  catch their own exceptions and do not change what is returned, so \<open>play_audio\<close> is left
  out. The last line of \<open>speak\<close> is \<open>return audio_path if save_file else None\<close>.
\<close>

definition CloudFallback_speak_premium :: "tts_world \<Rightarrow> string \<Rightarrow> bool \<Rightarrow> speak_return" where
  "CloudFallback_speak_premium tw text save_file =
     (case elevenlabs_reply tw text of
        None \<Rightarrow> ReturnsNone
      | Some content \<Rightarrow> if save_file then ReturnsPath (premium_path tw) else ReturnsBytes content)"

definition LocalTTS_speak :: "tts_world \<Rightarrow> string \<Rightarrow> bool \<Rightarrow> speak_return" where
  "LocalTTS_speak tw text save_file =
     (let premium = (if elevenlabs_enabled tw then CloudFallback_speak_premium tw text save_file
                     else ReturnsNone)
      in if returned_truthy premium then premium
         else if tts_to_file_ok tw text then
           (if save_file then ReturnsPath (saved_path tw) else ReturnsNone)
         else ReturnsNone)"

text \<open>
  The frames the host sends for one reply (\<open>pc_server.py\<close>, lines 190 to 217): the text
  frame, then the audio frame if \<open>tts.speak(response_text, save_file=False,
  play_audio=False)\<close> returned something true and \<open>sf.read\<close> of it did not raise.
\<close>

definition text_frame :: "string \<Rightarrow> duplex_frame" where
  "text_frame response_text =
     \<lparr>frame_type = Some ''text'', frame_text = Some response_text,
      frame_data = None, frame_samplerate = None\<rparr>"

definition reply_frames :: "tts_world \<Rightarrow> string \<Rightarrow> duplex_frame list" where
  "reply_frames tw response_text =
     text_frame response_text #
     (let audio_path = LocalTTS_speak tw response_text False in
      if returned_truthy audio_path then
        (case sf_read tw audio_path of
           None \<Rightarrow> []
         | Some (audio_data, sr) \<Rightarrow> [send_audio audio_data sr])
      else [])"



text \<open>The two 32-bit words that the eight bytes of one 64-bit sample are read as.\<close>

definition halves :: "64 word \<Rightarrow> 32 word list" where
  "halves v = [ucast v, ucast (drop_bit 32 v)]"

section \<open>Properties\<close>

subsection \<open>Conversation history\<close>

lemma truthy_simps [simp]: "truthy None = False" "truthy (Some s) = (s \<noteq> [])"
  by (simp_all add: truthy_def)

lemma length_update_history: "length (update_history hist msg a) \<le> 10"
  by (simp add: update_history_def Let_def)

lemma hb_inc [simp]:
  "histories_bounded (inc_local_requests b) = histories_bounded b"
  "histories_bounded (inc_cloud_requests b) = histories_bounded b"
  "histories_bounded (inc_local_failures b) = histories_bounded b"
  "histories_bounded (inc_cloud_failures b) = histories_bounded b"
  by (simp_all add: histories_bounded_def inc_local_requests_def inc_cloud_requests_def
        inc_local_failures_def inc_cloud_failures_def)

lemma hb_local_llm_chat:
  "histories_bounded b \<Longrightarrow> histories_bounded (fst (local_llm_chat w b msg sp))"
  by (auto simp: histories_bounded_def local_llm_chat_def LocalLLM_chat_def length_update_history
           split: api_result.splits prod.splits)

lemma hb_cloud_chat:
  "histories_bounded b \<Longrightarrow> histories_bounded (fst (cloud_chat w b msg sp))"
  by (auto simp: histories_bounded_def cloud_chat_def CloudFallback_chat_def length_update_history
           split: api_result.splits prod.splits)

lemma hb_cloud_chat_stream:
  "histories_bounded b \<Longrightarrow> histories_bounded (fst (cloud_chat_stream w b msg sp))"
  by (auto simp: histories_bounded_def cloud_chat_stream_def CloudFallback_chat_stream_def
                 length_update_history Let_def
           split: stream_reply.splits prod.splits)

lemma hb_local_vision:
  "histories_bounded b \<Longrightarrow> histories_bounded (fst (local_llm_analyze_image w b p q))"
  by (simp add: histories_bounded_def local_llm_analyze_image_def)

lemma hb_cloud_vision:
  "histories_bounded b \<Longrightarrow> histories_bounded (fst (cloud_analyze_image w b p q))"
  by (simp add: histories_bounded_def cloud_analyze_image_def)

lemma hb_analyze:
  "histories_bounded b \<Longrightarrow> histories_bounded (fst (HybridBrain_analyze_image w b p q))"
  unfolding HybridBrain_analyze_image_def Let_def split_def
  by (simp add: hb_local_vision hb_cloud_vision split: option.splits)

lemma hb_chat_with_vision:
  "histories_bounded b \<Longrightarrow> histories_bounded (fst (local_llm_chat_with_vision w b m p))"
  unfolding local_llm_chat_with_vision_def split_def
  by (simp add: hb_local_vision hb_local_llm_chat)

lemma hb_chat_local:
  "histories_bounded b \<Longrightarrow> histories_bounded (fst (chat_local w b m p))"
  unfolding chat_local_def
  by (simp add: hb_chat_with_vision hb_local_llm_chat)

lemma hb_inject:
  "histories_bounded b \<Longrightarrow> histories_bounded (fst (inject_vision w b m p))"
  unfolding inject_vision_def split_def
  by (simp add: hb_analyze)

lemma hb_chat_cloud:
  "histories_bounded b \<Longrightarrow> histories_bounded (fst (chat_cloud w b m p))"
  unfolding chat_cloud_def split_def
  by (simp add: hb_inject hb_cloud_chat)

lemma hb_chat:
  "histories_bounded b \<Longrightarrow> histories_bounded (fst (HybridBrain_chat w b m p))"
  unfolding HybridBrain_chat_def Let_def split_def
  by (simp add: hb_chat_local hb_chat_cloud split: option.splits)

lemma hb_vision_branch:
  "histories_bounded b \<Longrightarrow> histories_bounded (fst (vision_branch w b m img))"
  unfolding vision_branch_def split_def
  by (simp add: hb_analyze split: image_arg.splits)

lemma hb_chat_local_any:
  "histories_bounded b \<Longrightarrow> histories_bounded (fst (chat_local_any w b m img))"
  unfolding chat_local_any_def
  by (simp add: hb_chat_local split: image_arg.splits)

lemma hb_chat_any:
  "histories_bounded b \<Longrightarrow> histories_bounded (fst (HybridBrain_chat_any w b m img))"
  unfolding HybridBrain_chat_any_def Let_def split_def
  by (simp add: hb_chat_local_any hb_vision_branch hb_cloud_chat split: option.splits)

lemma hb_chat_stream:
  "histories_bounded b \<Longrightarrow> histories_bounded (fst (HybridBrain_chat_stream w b m img))"
  unfolding HybridBrain_chat_stream_def Let_def split_def
  by (simp add: hb_vision_branch hb_cloud_chat_stream hb_chat_any split: chat_return.splits)

lemma hb_reset: "histories_bounded b \<Longrightarrow> histories_bounded (reset_conversation b)"
  by (simp add: reset_conversation_def histories_bounded_def Let_def)

lemma hb_serve: "histories_bounded b \<Longrightarrow> histories_bounded (serve w b r)"
  by (cases r) (simp_all add: hb_reset hb_chat hb_chat_stream hb_analyze)

lemma hb_serve_all: "histories_bounded b \<Longrightarrow> histories_bounded (serve_all w b rs)"
  by (induction rs arbitrary: b) (simp_all add: hb_serve)

text \<open>
  Claim C8. Starting from a freshly constructed brain, after any sequence of calls of its
  public methods, with any behaviour of the two services (so after any number of successful
  dispatches, streamed or not, and of failed ones), the conversation history of the local
  backend and that of the cloud backend each hold at most 10 entries.
\<close>

theorem history_at_most_ten:
  "length (local_llm (serve_all w (HybridBrain_init local_ok cloud_ok) rs)) \<le> 10
   \<and> length (cloud (serve_all w (HybridBrain_init local_ok cloud_ok) rs)) \<le> 10"
  using hb_serve_all [of "HybridBrain_init local_ok cloud_ok" w rs]
  by (simp add: histories_bounded_def HybridBrain_init_def)

text \<open>
  Six successful local turns: the first exchange has been dropped and the history holds the
  last five exchanges, ten entries.
\<close>

theorem history_at_most_ten_witness:
  "length (local_llm (serve_all local_only_world (HybridBrain_init True False)
      [Chat ''a'' None, Chat ''b'' None, Chat ''c'' None,
       Chat ''d'' None, Chat ''e'' None, Chat ''f'' None])) \<le> 10
   \<and> local_llm (serve_all local_only_world (HybridBrain_init True False)
      [Chat ''a'' None, Chat ''b'' None, Chat ''c'' None,
       Chat ''d'' None, Chat ''e'' None, Chat ''f'' None])
     = [(User, Some ''b''), (Assistant, Some ''ok''), (User, Some ''c''), (Assistant, Some ''ok''),
        (User, Some ''d''), (Assistant, Some ''ok''), (User, Some ''e''), (Assistant, Some ''ok''),
        (User, Some ''f''), (Assistant, Some ''ok'')]"
proof -
  have "local_llm (serve_all local_only_world (HybridBrain_init True False)
      [Chat ''a'' None, Chat ''b'' None, Chat ''c'' None,
       Chat ''d'' None, Chat ''e'' None, Chat ''f'' None])
     = [(User, Some ''b''), (Assistant, Some ''ok''), (User, Some ''c''), (Assistant, Some ''ok''),
        (User, Some ''d''), (Assistant, Some ''ok''), (User, Some ''e''), (Assistant, Some ''ok''),
        (User, Some ''f''), (Assistant, Some ''ok'')]"
    by code_simp
  with history_at_most_ten [of local_only_world True False
      "[Chat ''a'' None, Chat ''b'' None, Chat ''c'' None,
        Chat ''d'' None, Chat ''e'' None, Chat ''f'' None]"]
  show ?thesis by blast
qed


subsection \<open>Routing and fallback\<close>

lemmas inc_defs = inc_local_requests_def inc_cloud_requests_def
        inc_local_failures_def inc_cloud_failures_def

lemma inc_frames [simp]:
  "attempts (inc_local_requests b) = attempts b"
  "attempts (inc_cloud_requests b) = attempts b"
  "attempts (inc_local_failures b) = attempts b"
  "attempts (inc_cloud_failures b) = attempts b"
  "local_available (inc_local_requests b) = local_available b"
  "local_available (inc_cloud_requests b) = local_available b"
  "local_available (inc_local_failures b) = local_available b"
  "local_available (inc_cloud_failures b) = local_available b"
  "cloud_available (inc_local_requests b) = cloud_available b"
  "cloud_available (inc_cloud_requests b) = cloud_available b"
  "cloud_available (inc_local_failures b) = cloud_available b"
  "cloud_available (inc_cloud_failures b) = cloud_available b"
  by (simp_all add: inc_defs attempts_def)

lemma inc_stats [simp]:
  "stats (inc_local_requests b) = (stats b)\<lparr>local_requests := local_requests (stats b) + 1\<rparr>"
  "stats (inc_cloud_requests b) = (stats b)\<lparr>cloud_requests := cloud_requests (stats b) + 1\<rparr>"
  "stats (inc_local_failures b) = (stats b)\<lparr>local_failures := local_failures (stats b) + 1\<rparr>"
  "stats (inc_cloud_failures b) = (stats b)\<lparr>cloud_failures := cloud_failures (stats b) + 1\<rparr>"
  by (simp_all add: inc_defs)

lemma local_llm_chat_frame [simp]:
  "attempts (fst (local_llm_chat w b m sp)) = attempts b @ [LocalAttempt]"
  "local_available (fst (local_llm_chat w b m sp)) = local_available b"
  "cloud_available (fst (local_llm_chat w b m sp)) = cloud_available b"
  "stats (fst (local_llm_chat w b m sp)) = stats b"
  by (simp_all add: local_llm_chat_def attempts_def map_filter_def split: prod.splits)

lemma cloud_chat_frame [simp]:
  "attempts (fst (cloud_chat w b m sp)) = attempts b @ [RemoteAttempt]"
  "local_available (fst (cloud_chat w b m sp)) = local_available b"
  "cloud_available (fst (cloud_chat w b m sp)) = cloud_available b"
  "stats (fst (cloud_chat w b m sp)) = stats b"
  by (simp_all add: cloud_chat_def attempts_def map_filter_def split: prod.splits)

lemma cloud_chat_stream_frame [simp]:
  "attempts (fst (cloud_chat_stream w b m sp)) = attempts b @ [RemoteStream]"
  "local_available (fst (cloud_chat_stream w b m sp)) = local_available b"
  "cloud_available (fst (cloud_chat_stream w b m sp)) = cloud_available b"
  "stats (fst (cloud_chat_stream w b m sp)) = stats b"
  by (simp_all add: cloud_chat_stream_def attempts_def map_filter_def split: prod.splits)

lemma local_vision_frame [simp]:
  "attempts (fst (local_llm_analyze_image w b p q)) = attempts b"
  "local_available (fst (local_llm_analyze_image w b p q)) = local_available b"
  "cloud_available (fst (local_llm_analyze_image w b p q)) = cloud_available b"
  "stats (fst (local_llm_analyze_image w b p q)) = stats b"
  by (simp_all add: local_llm_analyze_image_def attempts_def map_filter_def)

lemma cloud_vision_frame [simp]:
  "attempts (fst (cloud_analyze_image w b p q)) = attempts b"
  "local_available (fst (cloud_analyze_image w b p q)) = local_available b"
  "cloud_available (fst (cloud_analyze_image w b p q)) = cloud_available b"
  "stats (fst (cloud_analyze_image w b p q)) = stats b"
  by (simp_all add: cloud_analyze_image_def attempts_def map_filter_def)

lemma analyze_frame [simp]:
  "attempts (fst (HybridBrain_analyze_image w b p q)) = attempts b"
  "local_available (fst (HybridBrain_analyze_image w b p q)) = local_available b"
  "cloud_available (fst (HybridBrain_analyze_image w b p q)) = cloud_available b"
  unfolding HybridBrain_analyze_image_def Let_def split_def
  by (simp_all split: option.splits)


lemma chat_with_vision_frame [simp]:
  "attempts (fst (local_llm_chat_with_vision w b m p)) = attempts b @ [LocalAttempt]"
  "local_available (fst (local_llm_chat_with_vision w b m p)) = local_available b"
  "cloud_available (fst (local_llm_chat_with_vision w b m p)) = cloud_available b"
  "stats (fst (local_llm_chat_with_vision w b m p)) = stats b"
  unfolding local_llm_chat_with_vision_def split_def
  by simp_all

lemma chat_local_frame [simp]:
  "attempts (fst (chat_local w b m p)) = attempts b @ [LocalAttempt]"
  "local_available (fst (chat_local w b m p)) = local_available b"
  "cloud_available (fst (chat_local w b m p)) = cloud_available b"
  "stats (fst (chat_local w b m p)) = stats b"
  unfolding chat_local_def
  by simp_all

lemma inject_frame [simp]:
  "attempts (fst (inject_vision w b m p)) = attempts b"
  "local_available (fst (inject_vision w b m p)) = local_available b"
  "cloud_available (fst (inject_vision w b m p)) = cloud_available b"
  unfolding inject_vision_def split_def
  by simp_all


lemma chat_cloud_frame [simp]:
  "attempts (fst (chat_cloud w b m p)) = attempts b @ [RemoteAttempt]"
  "local_available (fst (chat_cloud w b m p)) = local_available b"
  "cloud_available (fst (chat_cloud w b m p)) = cloud_available b"
  unfolding chat_cloud_def split_def
  by simp_all






lemma chat_attempts_extend: "\<exists>xs. attempts (fst (HybridBrain_chat w b m p)) = attempts b @ xs"
  unfolding HybridBrain_chat_def Let_def split_def
  by (simp split: option.splits)



text \<open>
  The dispatch follows the decision whenever the backend it selects is available: the first
  chat attempt of \<open>chat\<close> is then on that backend.
\<close>

lemma chat_follows_decision:
  "\<not> should_use_cloud w b m \<and> local_available b \<longrightarrow>
     (\<exists>rest. attempts (fst (HybridBrain_chat w b m p)) = attempts b @ LocalAttempt # rest)"
  "should_use_cloud w b m \<and> cloud_available b \<longrightarrow>
     attempts (fst (HybridBrain_chat w b m p)) = attempts b @ [RemoteAttempt]"
  unfolding HybridBrain_chat_def Let_def split_def
  by (simp_all split: option.splits)

text \<open>
  Claim C5. The routing decision \<open>_should_use_cloud\<close>: in speed mode it is Local whatever the
  text; in quality mode it is Remote whatever the text; in balanced mode, for a text whose
  lower-cased form contains \<open>comprehensive\<close>, it is Remote exactly when Remote is available,
  and Local otherwise.
\<close>

theorem routing_decision:
  "(MODE w = ''speed'' \<longrightarrow> \<not> should_use_cloud w b message)
   \<and> (MODE w = ''quality'' \<longrightarrow> should_use_cloud w b message)
   \<and> (MODE w = ''balanced'' \<and> str_in ''comprehensive'' (lower message) \<longrightarrow>
        should_use_cloud w b message = cloud_available b)"
  by (simp add: should_use_cloud_def complexity_keywords_def Let_def)


theorem routing_decision_witness:
  "\<not> should_use_cloud (local_only_world\<lparr>MODE := ''speed''\<rparr>) (HybridBrain_init True True)
       ''Give me a COMPREHENSIVE report''
   \<and> should_use_cloud (local_only_world\<lparr>MODE := ''quality''\<rparr>) (HybridBrain_init True True) ''hi''
   \<and> should_use_cloud local_only_world (HybridBrain_init True True)
       ''Give me a COMPREHENSIVE report''
   \<and> \<not> should_use_cloud local_only_world (HybridBrain_init True False)
       ''Give me a COMPREHENSIVE report''"
proof -
  have m: "MODE (local_only_world\<lparr>MODE := ''speed''\<rparr>) = ''speed''"
          "MODE (local_only_world\<lparr>MODE := ''quality''\<rparr>) = ''quality''"
          "MODE local_only_world = ''balanced''"
    by (simp_all add: local_only_world_def)
  have k: "str_in ''comprehensive'' (lower ''Give me a COMPREHENSIVE report'')"
    by code_simp
  have a: "cloud_available (HybridBrain_init True True)"
          "\<not> cloud_available (HybridBrain_init True False)"
    by (simp_all add: HybridBrain_init_def)
  show ?thesis
    using routing_decision [of "local_only_world\<lparr>MODE := ''speed''\<rparr>"
            "HybridBrain_init True True" "''Give me a COMPREHENSIVE report''"]
          routing_decision [of "local_only_world\<lparr>MODE := ''quality''\<rparr>"
            "HybridBrain_init True True" "''hi''"]
          routing_decision [of local_only_world
            "HybridBrain_init True True" "''Give me a COMPREHENSIVE report''"]
          routing_decision [of local_only_world
            "HybridBrain_init True False" "''Give me a COMPREHENSIVE report''"]
          m k a
    by simp
qed





lemma stats_le_refl [simp]: "stats_le s s"
  by (simp add: stats_le_def)


lemma stats_le_inc [simp]:
  "stats_le s (stats b) \<Longrightarrow> stats_le s (stats (inc_local_requests b))"
  "stats_le s (stats b) \<Longrightarrow> stats_le s (stats (inc_cloud_requests b))"
  "stats_le s (stats b) \<Longrightarrow> stats_le s (stats (inc_local_failures b))"
  "stats_le s (stats b) \<Longrightarrow> stats_le s (stats (inc_cloud_failures b))"
  by (simp_all add: stats_le_def)

lemma vision_branch_frame [simp]:
  "attempts (fst (vision_branch w b m img)) = attempts b"
  "local_available (fst (vision_branch w b m img)) = local_available b"
  "cloud_available (fst (vision_branch w b m img)) = cloud_available b"
  unfolding vision_branch_def split_def
  by (simp_all split: image_arg.splits)



lemma chat_local_any_frame [simp]:
  "local_available (fst (chat_local_any w b m img)) = local_available b"
  "cloud_available (fst (chat_local_any w b m img)) = cloud_available b"
  "stats (fst (chat_local_any w b m img)) = stats b"
  unfolding chat_local_any_def
  by (simp_all split: image_arg.splits)


text \<open>
  On an argument that is no frame and a console that accepts every text, \<open>chat\<close> for any
  argument is the \<open>chat\<close> above.
\<close>

lemma vision_branch_inject:
  assumes "img \<noteq> FrameArray" "\<forall>t. \<not> console_rejects w t"
  shows "vision_branch w b m img
     = (fst (inject_vision w b m (as_path img)), snd (inject_vision w b m (as_path img)), False)"
  using assms unfolding vision_branch_def inject_vision_def as_path_def split_def
  by (simp split: image_arg.splits)

lemma chat_any_chat:
  assumes "img \<noteq> FrameArray" "\<forall>t. \<not> console_rejects w t"
  shows "HybridBrain_chat_any w b m img
     = (fst (HybridBrain_chat w b m (as_path img)),
        Reply (snd (HybridBrain_chat w b m (as_path img))))"
proof -
  have l: "chat_local_any w b m img = chat_local w b m (as_path img)"
    using assms(1) by (simp add: chat_local_any_def split: image_arg.splits)
  show ?thesis
    unfolding HybridBrain_chat_any_def HybridBrain_chat_def chat_cloud_def Let_def split_def l
      vision_branch_inject [OF assms]
    by (simp split: option.splits)
qed


lemma stats_le_upd [simp]:
  "stats_le s t \<Longrightarrow> stats_le s (t\<lparr>local_requests := Suc (local_requests t)\<rparr>)"
  "stats_le s t \<Longrightarrow> stats_le s (t\<lparr>cloud_requests := Suc (cloud_requests t)\<rparr>)"
  "stats_le s t \<Longrightarrow> stats_le s (t\<lparr>local_failures := Suc (local_failures t)\<rparr>)"
  "stats_le s t \<Longrightarrow> stats_le s (t\<lparr>cloud_failures := Suc (cloud_failures t)\<rparr>)"
  by (simp_all add: stats_le_def)





subsection \<open>Endpointing\<close>

lemma rms_replicate: "0 < n \<Longrightarrow> rms (replicate n x) = \<bar>x\<bar>"
  by (simp add: rms_def sum_list_replicate)

lemma pas_append:
  "process_audio_stream vol cfg s (xs @ ys) =
     (fst (process_audio_stream vol cfg (fst (process_audio_stream vol cfg s xs)) ys),
      snd (process_audio_stream vol cfg s xs)
        @ snd (process_audio_stream vol cfg (fst (process_audio_stream vol cfg s xs)) ys))"
  by (induction xs arbitrary: s) (simp_all add: split_def)

lemma pas_length: "length (snd (process_audio_stream vol cfg s cs)) = length cs"
  by (induction cs arbitrary: s) (simp_all add: split_def)

lemma utterances_simps [simp]:
  "utterances [] = []"
  "utterances (None # outs) = utterances outs"
  "utterances (Some u # outs) = u # utterances outs"
  "utterances (xs @ ys) = utterances xs @ utterances ys"
  "utterances (replicate n None) = []"
  by (simp_all add: utterances_def map_filter_def)

lemma utterances_Nil: "utterances outs = [] \<Longrightarrow> outs = replicate (length outs) None"
  by (induction outs) (auto simp: utterances_def map_filter_def split: if_splits)

lemma rms_decode_replicate:
  "0 < n \<Longrightarrow> rms (decode_pcm (replicate n v)) = \<bar>real_of_int (sint v) / 32767\<bar>"
  unfolding decode_pcm_def map_replicate by (rule rms_replicate)

lemma rms_pcm_loud: "rms (decode_pcm pcm_loud) = 1"
  unfolding pcm_loud_def by (subst rms_decode_replicate) simp_all

lemma rms_pcm_quiet: "rms (decode_pcm pcm_quiet) = 0"
  unfolding pcm_quiet_def by (subst rms_decode_replicate) simp_all

lemma rms_half_block: "rms half_block = 0.5"
  unfolding half_block_def by (subst rms_replicate) simp_all

lemmas ex_simps = process_chunk_def host_chunk_def Let_def heard_at_def rms_pcm_loud rms_pcm_quiet
  rms_half_block default_settings_def half_settings_def endpoint_init_def host_init_def
  silence_threshold_def

lemma gated_chunk:
  "agent_speaking c \<Longrightarrow> snd (process_chunk vol cfg s c) = None"
  by (simp add: process_chunk_def Let_def)


text \<open>
  Claim C3. If the agent-speaking flag is set on a chunk that arrives while the engine is
  speaking, the buffer is emptied, the engine leaves the speaking state and nothing is
  finalized; and in any run, from any state, no chunk processed while the flag is set
  finalizes an utterance.
\<close>

theorem self_echo_gate:
  "(agent_speaking c \<and> is_speaking s \<longrightarrow>
      process_chunk vol cfg s c = (s\<lparr>is_speaking := False, speech_buffer := []\<rparr>, None))
   \<and> (\<forall>i < length cs. agent_speaking (cs ! i) \<longrightarrow>
         snd (process_audio_stream vol cfg s0 cs) ! i = None)"
proof
  show "agent_speaking c \<and> is_speaking s \<longrightarrow>
      process_chunk vol cfg s c = (s\<lparr>is_speaking := False, speech_buffer := []\<rparr>, None)"
    by (simp add: process_chunk_def Let_def)
  show "\<forall>i < length cs. agent_speaking (cs ! i) \<longrightarrow>
         snd (process_audio_stream vol cfg s0 cs) ! i = None"
  proof (induction cs arbitrary: s0)
    case Nil
    show ?case by simp
  next
    case (Cons a cs)
    show ?case
    proof (intro allI impI)
      fix i assume i: "i < length (a # cs)" and g: "agent_speaking ((a # cs) ! i)"
      show "snd (process_audio_stream vol cfg s0 (a # cs)) ! i = None"
      proof (cases i)
        case 0
        with g gated_chunk [of a vol cfg s0] show ?thesis
          by (simp add: split_def)
      next
        case (Suc j)
        with i g Cons.IH [of "fst (process_chunk vol cfg s0 a)"] show ?thesis
          by (simp add: split_def)
      qed
    qed
  qed
qed


theorem self_echo_gate_witness:
  "process_chunk rms default_settings
       \<lparr>speech_buffer = [decode_pcm pcm_loud], silence_start = None, is_speaking = True\<rparr>
       ((heard_at (decode_pcm pcm_loud) 1)\<lparr>agent_speaking := True\<rparr>)
     = (\<lparr>speech_buffer = [], silence_start = None, is_speaking = False\<rparr>, None)
   \<and> snd (process_audio_stream rms default_settings endpoint_init
         [heard_at (decode_pcm pcm_loud) 0,
          (heard_at (decode_pcm pcm_quiet) 5)\<lparr>agent_speaking := True\<rparr>]) ! 1 = None"
  using self_echo_gate [where c = "(heard_at (decode_pcm pcm_loud) 1)\<lparr>agent_speaking := True\<rparr>"
      and s = "\<lparr>speech_buffer = [decode_pcm pcm_loud], silence_start = None, is_speaking = True\<rparr>"
      and vol = rms and cfg = default_settings
      and cs = "[heard_at (decode_pcm pcm_loud) 0,
        (heard_at (decode_pcm pcm_quiet) 5)\<lparr>agent_speaking := True\<rparr>]"
      and ?s0.0 = endpoint_init]
  by (simp add: heard_at_def del: process_audio_stream.simps)

text \<open>
  Claim C7, as the code has it. The comparison is strict. A chunk that arrives while the
  engine is idle and the flag is clear, with volume exactly equal to the threshold, changes
  nothing: it is not buffered and the engine stays idle. With volume above the threshold it
  is buffered and the engine is speaking.
\<close>

theorem threshold_is_strict:
  "\<not> agent_speaking c \<and> \<not> is_speaking s \<longrightarrow>
     (vol (chunk c) = threshold cfg \<longrightarrow> process_chunk vol cfg s c = (s, None))
   \<and> (vol (chunk c) > threshold cfg \<longrightarrow>
        process_chunk vol cfg s c =
          (s\<lparr>is_speaking := True, speech_buffer := speech_buffer s @ [chunk c],
              silence_start := None\<rparr>, None))"
  by (simp add: process_chunk_def Let_def)

theorem threshold_is_strict_witness:
  "process_chunk rms half_settings endpoint_init (heard_at half_block 0) = (endpoint_init, None)
   \<and> process_chunk rms half_settings endpoint_init (heard_at (decode_pcm pcm_loud) 0)
     = (\<lparr>speech_buffer = [decode_pcm pcm_loud], silence_start = None, is_speaking = True\<rparr>, None)"
proof -
  have h: "\<not> agent_speaking (heard_at half_block 0)" "\<not> is_speaking endpoint_init"
    "rms (chunk (heard_at half_block 0)) = threshold half_settings"
    "\<not> agent_speaking (heard_at (decode_pcm pcm_loud) 0)"
    "rms (chunk (heard_at (decode_pcm pcm_loud) 0)) > threshold half_settings"
    by (simp_all add: heard_at_def endpoint_init_def half_settings_def
          rms_half_block rms_pcm_loud)
  from threshold_is_strict [where c = "heard_at half_block 0" and s = endpoint_init
         and vol = rms and cfg = half_settings]
       threshold_is_strict [where c = "heard_at (decode_pcm pcm_loud) 0" and s = endpoint_init
         and vol = rms and cfg = half_settings]
       h
  show ?thesis by (simp add: heard_at_def endpoint_init_def)
qed

text \<open>
  The claim as stated fails. The default threshold 0.02 is not a 32-bit float, so no block
  has a volume exactly equal to it; with the threshold adjusted to 0.5, the block of 4000
  samples 0.5 has volume exactly 0.5, in the 32-bit computation as in the exact one. It
  arrives in the idle state with the flag clear, is not buffered, and the engine is not
  speaking afterwards.
\<close>

theorem threshold_inclusive_counterexample:
  "rms (chunk (heard_at half_block 0)) = threshold half_settings
   \<and> \<not> agent_speaking (heard_at half_block 0)
   \<and> \<not> is_speaking endpoint_init
   \<and> \<not> is_speaking (fst (process_chunk rms half_settings endpoint_init (heard_at half_block 0)))
   \<and> speech_buffer (fst (process_chunk rms half_settings endpoint_init (heard_at half_block 0))) = []"
  by (simp add: ex_simps)

lemma idle_quiet:
  "\<not> is_speaking s \<Longrightarrow> \<forall>c\<in>set cs. \<not> agent_speaking c \<and> \<not> loud vol cfg c \<Longrightarrow>
     process_audio_stream vol cfg s cs = (s, replicate (length cs) None)"
  by (induction cs arbitrary: s) (simp_all add: process_chunk_def loud_def Let_def)

lemma speaking_step:
  assumes "is_speaking s" "\<not> agent_speaking c" "snd (process_chunk vol cfg s c) = None"
  shows "is_speaking (fst (process_chunk vol cfg s c))
     \<and> speech_buffer (fst (process_chunk vol cfg s c)) = speech_buffer s @ [chunk c]
     \<and> (loud vol cfg c \<longrightarrow> silence_start (fst (process_chunk vol cfg s c)) = None)"
  using assms by (auto simp: process_chunk_def loud_def Let_def split: if_splits)

lemma speaking_run:
  "is_speaking s \<Longrightarrow> \<forall>c\<in>set cs. \<not> agent_speaking c \<Longrightarrow>
   utterances (snd (process_audio_stream vol cfg s cs)) = [] \<Longrightarrow>
     is_speaking (fst (process_audio_stream vol cfg s cs))
     \<and> speech_buffer (fst (process_audio_stream vol cfg s cs)) = speech_buffer s @ map chunk cs"
proof (induction cs arbitrary: s)
  case Nil
  then show ?case by simp
next
  case (Cons a cs)
  from Cons.prems(3) have o: "snd (process_chunk vol cfg s a) = None"
    and os: "utterances (snd (process_audio_stream vol cfg (fst (process_chunk vol cfg s a)) cs)) = []"
    by (cases "snd (process_chunk vol cfg s a)"; simp add: split_def)+
  from speaking_step [of s a vol cfg] Cons.prems o
  have s1: "is_speaking (fst (process_chunk vol cfg s a))"
    "speech_buffer (fst (process_chunk vol cfg s a)) = speech_buffer s @ [chunk a]"
    by simp_all
  from Cons.IH [OF s1(1) _ os] Cons.prems(2) s1(2)
  show ?case by (simp add: split_def)
qed

lemma speaking_run_ends_loud:
  assumes "is_speaking s" "\<forall>c\<in>set cs. \<not> agent_speaking c"
    "utterances (snd (process_audio_stream vol cfg s cs)) = []" "cs \<noteq> []" "loud vol cfg (last cs)"
  shows "silence_start (fst (process_audio_stream vol cfg s cs)) = None"
proof -
  from assms(4) have cs: "cs = butlast cs @ [last cs]" by simp
  define s1 where "s1 = fst (process_audio_stream vol cfg s (butlast cs))"
  have f: "fst (process_audio_stream vol cfg s cs) = fst (process_chunk vol cfg s1 (last cs))"
    and o: "snd (process_audio_stream vol cfg s cs)
       = snd (process_audio_stream vol cfg s (butlast cs)) @ [snd (process_chunk vol cfg s1 (last cs))]"
    unfolding s1_def by (subst cs, simp add: pas_append split_def)+
  from assms(3) o have u1: "utterances (snd (process_audio_stream vol cfg s (butlast cs))) = []"
    and u2: "snd (process_chunk vol cfg s1 (last cs)) = None"
    by (cases "snd (process_chunk vol cfg s1 (last cs))"; simp)+
  have "\<forall>c\<in>set (butlast cs). \<not> agent_speaking c"
    using assms(2) by (meson in_set_butlastD)
  from speaking_run [OF assms(1) this u1] have sp: "is_speaking s1" by (simp add: s1_def)
  have "\<not> agent_speaking (last cs)" using assms(2,4) by simp
  from speaking_step [OF sp this u2] assms(5) show ?thesis by (simp add: f)
qed

lemma silence_run:
  assumes "is_speaking s" "\<forall>c\<in>set (sil @ [lastc]). \<not> agent_speaking c \<and> \<not> loud vol cfg c"
    "began = (case silence_start s of None \<Rightarrow> clock_mark (hd (sil @ [lastc])) | Some t \<Rightarrow> t)"
    "\<forall>c\<in>set sil. clock_check c - began \<le> silence_limit cfg"
    "clock_check lastc - began > silence_limit cfg"
  shows "process_audio_stream vol cfg s (sil @ [lastc]) =
     (endpoint_init,
      replicate (length sil) None @ [Some (concat (speech_buffer s @ map chunk (sil @ [lastc])))])"
  using assms
proof (induction sil arbitrary: s)
  case Nil
  then show ?case
    by (simp add: process_chunk_def loud_def Let_def endpoint_init_def split: option.splits)
next
  case (Cons a sil)
  define s1 where "s1 = s\<lparr>speech_buffer := speech_buffer s @ [chunk a], silence_start := Some began\<rparr>"
  have st: "process_chunk vol cfg s a = (s1, None)"
    using Cons.prems by (auto simp add: process_chunk_def loud_def Let_def s1_def split: option.splits)
  have "process_audio_stream vol cfg s1 (sil @ [lastc]) =
     (endpoint_init,
      replicate (length sil) None @ [Some (concat (speech_buffer s1 @ map chunk (sil @ [lastc])))])"
    by (rule Cons.IH) (use Cons.prems in \<open>simp_all add: s1_def\<close>)
  then show ?case using st by (simp add: s1_def)
qed


text \<open>
  Claim C4. Take a run with the flag clear throughout: chunks below the threshold, then a
  stretch of speech that starts and ends with a chunk above the threshold and whose pauses
  finalized nothing, then trailing silence whose last chunk is the first one read more than
  the silence limit after the silence began. From the initial state the engine finalizes on
  that last chunk and on no other, the utterance is the concatenation, in arrival order, of
  every chunk from the first chunk of the speech to that last chunk, and the engine is back
  in its initial state.
\<close>

theorem one_utterance:
  assumes clear: "\<forall>c\<in>set (pre @ spoken @ sil @ [lastc]). \<not> agent_speaking c"
    and pre: "\<forall>c\<in>set pre. \<not> loud vol cfg c"
    and spoken: "spoken \<noteq> []" "loud vol cfg (hd spoken)" "loud vol cfg (last spoken)"
    and pauses: "utterances (snd (process_audio_stream vol cfg endpoint_init (pre @ spoken))) = []"
    and quiet: "\<forall>c\<in>set (sil @ [lastc]). \<not> loud vol cfg c"
    and within: "\<forall>c\<in>set sil. clock_check c - clock_mark (hd (sil @ [lastc])) \<le> silence_limit cfg"
    and exceeded: "clock_check lastc - clock_mark (hd (sil @ [lastc])) > silence_limit cfg"
  shows "process_audio_stream vol cfg endpoint_init (pre @ spoken @ sil @ [lastc]) =
           (endpoint_init,
            replicate (length (pre @ spoken @ sil)) None
              @ [Some (concat (map chunk (spoken @ sil @ [lastc])))])
         \<and> utterances (snd (process_audio_stream vol cfg endpoint_init (pre @ spoken @ sil @ [lastc])))
             = [concat (map chunk (spoken @ sil @ [lastc]))]"
proof -
  have idle: "\<not> is_speaking endpoint_init" by (simp add: endpoint_init_def)
  have p: "process_audio_stream vol cfg endpoint_init pre = (endpoint_init, replicate (length pre) None)"
    by (rule idle_quiet [OF idle]) (use clear pre in simp)
  obtain h t where ht: "spoken = h # t" using spoken(1) by (cases spoken) auto
  define s1 where "s1 = \<lparr>speech_buffer = [chunk h], silence_start = None, is_speaking = True\<rparr>"
  have h: "process_chunk vol cfg endpoint_init h = (s1, None)"
    using clear spoken(2) ht
    by (simp add: process_chunk_def loud_def Let_def endpoint_init_def s1_def)
  have ut: "utterances (snd (process_audio_stream vol cfg s1 t)) = []"
    using pauses by (simp add: pas_append p ht h split_def)
  have ct: "\<forall>c\<in>set t. \<not> agent_speaking c" using clear ht by simp
  have sp1: "is_speaking s1" by (simp add: s1_def)
  define s2 where "s2 = fst (process_audio_stream vol cfg s1 t)"
  from speaking_run [OF sp1 ct ut]
  have s2: "is_speaking s2" "speech_buffer s2 = map chunk spoken"
    by (simp_all add: s2_def s1_def ht)
  have ss2: "silence_start s2 = None"
  proof (cases "t = []")
    case True
    then show ?thesis by (simp add: s2_def s1_def)
  next
    case False
    with spoken(3) ht have "loud vol cfg (last t)" by simp
    from speaking_run_ends_loud [OF sp1 ct ut False this] show ?thesis by (simp add: s2_def)
  qed
  have sp: "process_audio_stream vol cfg endpoint_init (pre @ spoken)
      = (s2, replicate (length (pre @ spoken)) None)"
  proof -
    have "snd (process_audio_stream vol cfg s1 t) = replicate (length t) None"
      using utterances_Nil [OF ut] by (simp add: pas_length)
    then show ?thesis
      by (simp add: pas_append p ht h s2_def split_def replicate_add replicate_app_Cons_same)
  qed
  have fin: "process_audio_stream vol cfg s2 (sil @ [lastc]) =
     (endpoint_init,
      replicate (length sil) None @ [Some (concat (speech_buffer s2 @ map chunk (sil @ [lastc])))])"
    by (rule silence_run [OF s2(1), where began = "clock_mark (hd (sil @ [lastc]))"])
       (use clear quiet within exceeded in \<open>simp_all add: ss2\<close>)
  have "process_audio_stream vol cfg endpoint_init ((pre @ spoken) @ sil @ [lastc]) =
           (endpoint_init,
            replicate (length (pre @ spoken)) None @ replicate (length sil) None
              @ [Some (concat (map chunk (spoken @ sil @ [lastc])))])"
    by (subst pas_append) (simp add: sp fin s2)
  then have main: "process_audio_stream vol cfg endpoint_init (pre @ spoken @ sil @ [lastc]) =
           (endpoint_init,
            replicate (length (pre @ spoken @ sil)) None
              @ [Some (concat (map chunk (spoken @ sil @ [lastc])))])"
    by (simp add: replicate_add)
  show ?thesis
    by (subst (2) main, rule conjI [OF main]) simp
qed



theorem one_utterance_witness:
  "utterances (snd (process_audio_stream rms default_settings endpoint_init
      ([heard_at (decode_pcm pcm_quiet) 0]
       @ [heard_at (decode_pcm pcm_loud) 0.25, heard_at (decode_pcm pcm_quiet) 0.5,
          heard_at (decode_pcm pcm_loud) 0.75]
       @ [heard_at (decode_pcm pcm_quiet) 1, heard_at (decode_pcm pcm_quiet) 2]
       @ [heard_at (decode_pcm pcm_quiet) 3.25])))
   = [concat [decode_pcm pcm_loud, decode_pcm pcm_quiet, decode_pcm pcm_loud,
              decode_pcm pcm_quiet, decode_pcm pcm_quiet, decode_pcm pcm_quiet]]"
proof -
  have "process_audio_stream rms default_settings endpoint_init
      ([heard_at (decode_pcm pcm_quiet) 0]
       @ [heard_at (decode_pcm pcm_loud) 0.25, heard_at (decode_pcm pcm_quiet) 0.5,
          heard_at (decode_pcm pcm_loud) 0.75]
       @ [heard_at (decode_pcm pcm_quiet) 1, heard_at (decode_pcm pcm_quiet) 2]
       @ [heard_at (decode_pcm pcm_quiet) 3.25]) =
           (endpoint_init,
            replicate (length ([heard_at (decode_pcm pcm_quiet) 0]
       @ [heard_at (decode_pcm pcm_loud) 0.25, heard_at (decode_pcm pcm_quiet) 0.5,
          heard_at (decode_pcm pcm_loud) 0.75]
       @ [heard_at (decode_pcm pcm_quiet) 1, heard_at (decode_pcm pcm_quiet) 2])) None
              @ [Some (concat (map chunk ([heard_at (decode_pcm pcm_loud) 0.25,
          heard_at (decode_pcm pcm_quiet) 0.5, heard_at (decode_pcm pcm_loud) 0.75]
       @ [heard_at (decode_pcm pcm_quiet) 1, heard_at (decode_pcm pcm_quiet) 2]
       @ [heard_at (decode_pcm pcm_quiet) 3.25])))])
         \<and> utterances (snd (process_audio_stream rms default_settings endpoint_init
      ([heard_at (decode_pcm pcm_quiet) 0]
       @ [heard_at (decode_pcm pcm_loud) 0.25, heard_at (decode_pcm pcm_quiet) 0.5,
          heard_at (decode_pcm pcm_loud) 0.75]
       @ [heard_at (decode_pcm pcm_quiet) 1, heard_at (decode_pcm pcm_quiet) 2]
       @ [heard_at (decode_pcm pcm_quiet) 3.25])))
             = [concat (map chunk ([heard_at (decode_pcm pcm_loud) 0.25,
          heard_at (decode_pcm pcm_quiet) 0.5, heard_at (decode_pcm pcm_loud) 0.75]
       @ [heard_at (decode_pcm pcm_quiet) 1, heard_at (decode_pcm pcm_quiet) 2]
       @ [heard_at (decode_pcm pcm_quiet) 3.25]))]"
    by (rule one_utterance) (simp_all add: ex_simps loud_def)
  then show ?thesis by (simp add: heard_at_def)
qed

subsection \<open>The host against the co-located engine\<close>

lemma as_append:
  "audio_stream vol h (xs @ ys) =
     (fst (audio_stream vol (fst (audio_stream vol h xs)) ys),
      snd (audio_stream vol h xs) @ snd (audio_stream vol (fst (audio_stream vol h xs)) ys))"
  by (induction xs arbitrary: h) (simp_all add: split_def)

lemma host_loud_resets_count:
  "vol x > 0.02 \<Longrightarrow>
     silence_count (fst (host_chunk vol h x)) = 0 \<and> snd (host_chunk vol h x) = None"
  by (simp add: host_chunk_def Let_def)

lemma same_buffer_step:
  assumes "same_buffer s h" "\<not> agent_speaking c" "threshold cfg = 0.02"
    "snd (process_chunk vol cfg s c) = None" "snd (host_chunk vol h (chunk c)) = None"
  shows "same_buffer (fst (process_chunk vol cfg s c)) (fst (host_chunk vol h (chunk c)))"
  using assms
  by (auto simp: same_buffer_def process_chunk_def host_chunk_def Let_def split: if_splits)

lemma same_buffer_run:
  "same_buffer s h \<Longrightarrow> \<forall>c\<in>set cs. \<not> agent_speaking c \<Longrightarrow> threshold cfg = 0.02 \<Longrightarrow>
   map chunk cs = map decode_pcm ds \<Longrightarrow>
   utterances (snd (process_audio_stream vol cfg s cs)) = [] \<Longrightarrow>
   utterances (snd (audio_stream vol h ds)) = [] \<Longrightarrow>
     same_buffer (fst (process_audio_stream vol cfg s cs)) (fst (audio_stream vol h ds))"
proof (induction cs arbitrary: s h ds)
  case Nil
  then show ?case by simp
next
  case (Cons c cs)
  from Cons.prems(4) obtain d ds' where ds: "ds = d # ds'" "chunk c = decode_pcm d"
    "map chunk cs = map decode_pcm ds'" by (cases ds) auto
  from Cons.prems(5) have o1: "snd (process_chunk vol cfg s c) = None"
    and u1: "utterances (snd (process_audio_stream vol cfg (fst (process_chunk vol cfg s c)) cs)) = []"
    by (cases "snd (process_chunk vol cfg s c)"; simp add: split_def)+
  from Cons.prems(6) ds have o2: "snd (host_chunk vol h (chunk c)) = None"
    and u2: "utterances (snd (audio_stream vol (fst (host_chunk vol h (chunk c))) ds')) = []"
    by (cases "snd (host_chunk vol h (chunk c))"; simp add: split_def)+
  have r: "same_buffer (fst (process_chunk vol cfg s c)) (fst (host_chunk vol h (chunk c)))"
    by (rule same_buffer_step) (use Cons.prems o1 o2 in simp_all)
  from Cons.IH [OF r _ Cons.prems(3) ds(3) u1 u2] Cons.prems(2)
  show ?case by (simp add: ds split_def)
qed


text \<open>
  Claim C6, as the code has it. Fed the same chunks with the flag clear, and with the
  co-located threshold at its default 0.02, the host holds exactly the buffer of the
  co-located engine, and a non-empty buffer exactly when that engine is speaking, for as
  long as neither has finalized. The host ends an utterance by count: on a chunk at or below
  the threshold with a non-empty buffer it finalizes exactly when that chunk is the eighth
  such chunk in a row. The host step has no flag to read.
\<close>

theorem host_agrees_until_finalization:
  "((\<forall>c\<in>set cs. \<not> agent_speaking c) \<and> threshold cfg = 0.02
      \<and> map chunk cs = map decode_pcm ds
      \<and> utterances (snd (process_audio_stream vol cfg endpoint_init cs)) = []
      \<and> utterances (snd (audio_stream vol host_init ds)) = [] \<longrightarrow>
        audio_buffer (fst (audio_stream vol host_init ds))
          = speech_buffer (fst (process_audio_stream vol cfg endpoint_init cs))
        \<and> (audio_buffer (fst (audio_stream vol host_init ds)) \<noteq> []) 
          = is_speaking (fst (process_audio_stream vol cfg endpoint_init cs)))
   \<and> (audio_buffer h \<noteq> [] \<and> \<not> vol x > 0.02 \<longrightarrow>
        (snd (host_chunk vol h x) \<noteq> None) = (silence_count h + 1 \<ge> 8))"
proof (intro conjI impI)
  assume a: "(\<forall>c\<in>set cs. \<not> agent_speaking c) \<and> threshold cfg = 0.02
      \<and> map chunk cs = map decode_pcm ds
      \<and> utterances (snd (process_audio_stream vol cfg endpoint_init cs)) = []
      \<and> utterances (snd (audio_stream vol host_init ds)) = []"
  have "same_buffer endpoint_init host_init"
    by (simp add: same_buffer_def endpoint_init_def host_init_def)
  from same_buffer_run [OF this, where cs = cs and vol = vol and cfg = cfg and ds = ds] a
  have "same_buffer (fst (process_audio_stream vol cfg endpoint_init cs)) (fst (audio_stream vol host_init ds))"
    by simp
  then show "audio_buffer (fst (audio_stream vol host_init ds))
          = speech_buffer (fst (process_audio_stream vol cfg endpoint_init cs))"
    and "(audio_buffer (fst (audio_stream vol host_init ds)) \<noteq> []) 
          = is_speaking (fst (process_audio_stream vol cfg endpoint_init cs))"
    by (simp_all add: same_buffer_def)
next
  assume "audio_buffer h \<noteq> [] \<and> \<not> vol x > 0.02"
  then show "(snd (host_chunk vol h x) \<noteq> None) = (silence_count h + 1 \<ge> 8)"
    by (simp add: host_chunk_def Let_def silence_threshold_def)
qed




theorem host_agrees_until_finalization_witness:
  "audio_buffer (fst (audio_stream rms host_init [pcm_loud, pcm_quiet, pcm_quiet]))
     = [decode_pcm pcm_loud, decode_pcm pcm_quiet, decode_pcm pcm_quiet]
   \<and> speech_buffer (fst (process_audio_stream rms default_settings endpoint_init
        [heard_at (decode_pcm pcm_loud) 0, heard_at (decode_pcm pcm_quiet) 0.25,
         heard_at (decode_pcm pcm_quiet) 0.5]))
     = [decode_pcm pcm_loud, decode_pcm pcm_quiet, decode_pcm pcm_quiet]
   \<and> is_speaking (fst (process_audio_stream rms default_settings endpoint_init
        [heard_at (decode_pcm pcm_loud) 0, heard_at (decode_pcm pcm_quiet) 0.25,
         heard_at (decode_pcm pcm_quiet) 0.5]))
   \<and> snd (host_chunk rms \<lparr>audio_buffer = [decode_pcm pcm_loud], silence_count = 7\<rparr>
            (decode_pcm pcm_quiet)) \<noteq> None"
proof -
  have h: "(\<forall>c\<in>set [heard_at (decode_pcm pcm_loud) 0, heard_at (decode_pcm pcm_quiet) 0.25,
         heard_at (decode_pcm pcm_quiet) 0.5]. \<not> agent_speaking c)
      \<and> threshold default_settings = 0.02
      \<and> map chunk [heard_at (decode_pcm pcm_loud) 0, heard_at (decode_pcm pcm_quiet) 0.25,
         heard_at (decode_pcm pcm_quiet) 0.5] = map decode_pcm [pcm_loud, pcm_quiet, pcm_quiet]
      \<and> utterances (snd (process_audio_stream rms default_settings endpoint_init
          [heard_at (decode_pcm pcm_loud) 0, heard_at (decode_pcm pcm_quiet) 0.25,
           heard_at (decode_pcm pcm_quiet) 0.5])) = []
      \<and> utterances (snd (audio_stream rms host_init [pcm_loud, pcm_quiet, pcm_quiet])) = []"
    by (simp add: ex_simps)
  have g: "audio_buffer \<lparr>audio_buffer = [decode_pcm pcm_loud], silence_count = 7\<rparr> \<noteq> []
      \<and> \<not> rms (decode_pcm pcm_quiet) > 0.02"
    by (simp add: rms_pcm_quiet)
  have e: "audio_buffer (fst (audio_stream rms host_init [pcm_loud, pcm_quiet, pcm_quiet]))
     = [decode_pcm pcm_loud, decode_pcm pcm_quiet, decode_pcm pcm_quiet]"
    by (simp add: ex_simps)
  from host_agrees_until_finalization [where
      cs = "[heard_at (decode_pcm pcm_loud) 0, heard_at (decode_pcm pcm_quiet) 0.25,
         heard_at (decode_pcm pcm_quiet) 0.5]" and vol = rms and cfg = default_settings
      and ds = "[pcm_loud, pcm_quiet, pcm_quiet]"
      and h = "\<lparr>audio_buffer = [decode_pcm pcm_loud], silence_count = 7\<rparr>"
      and x = "decode_pcm pcm_quiet"]
    h g
  have c1: "audio_buffer (fst (audio_stream rms host_init [pcm_loud, pcm_quiet, pcm_quiet]))
      = speech_buffer (fst (process_audio_stream rms default_settings endpoint_init
        [heard_at (decode_pcm pcm_loud) 0, heard_at (decode_pcm pcm_quiet) 0.25,
         heard_at (decode_pcm pcm_quiet) 0.5]))"
    and c2: "(audio_buffer (fst (audio_stream rms host_init [pcm_loud, pcm_quiet, pcm_quiet])) \<noteq> [])
      = is_speaking (fst (process_audio_stream rms default_settings endpoint_init
        [heard_at (decode_pcm pcm_loud) 0, heard_at (decode_pcm pcm_quiet) 0.25,
         heard_at (decode_pcm pcm_quiet) 0.5]))"
    and c3: "(snd (host_chunk rms \<lparr>audio_buffer = [decode_pcm pcm_loud], silence_count = 7\<rparr>
            (decode_pcm pcm_quiet)) \<noteq> None)
      = (silence_count \<lparr>audio_buffer = [decode_pcm pcm_loud], silence_count = 7\<rparr> + 1 \<ge> 8)"
    by blast+
  from c3 have c3': "snd (host_chunk rms \<lparr>audio_buffer = [decode_pcm pcm_loud], silence_count = 7\<rparr>
            (decode_pcm pcm_quiet)) \<noteq> None"
    by simp
  from e c1 have c1': "speech_buffer (fst (process_audio_stream rms default_settings endpoint_init
        [heard_at (decode_pcm pcm_loud) 0, heard_at (decode_pcm pcm_quiet) 0.25,
         heard_at (decode_pcm pcm_quiet) 0.5]))
     = [decode_pcm pcm_loud, decode_pcm pcm_quiet, decode_pcm pcm_quiet]"
    by (simp only:)
  from e c2 have c2': "is_speaking (fst (process_audio_stream rms default_settings endpoint_init
        [heard_at (decode_pcm pcm_loud) 0, heard_at (decode_pcm pcm_quiet) 0.25,
         heard_at (decode_pcm pcm_quiet) 0.5]))"
    by (simp only: list.distinct not_False_eq_True simp_thms)
  from e c1' c2' c3' show ?thesis by (intro conjI)
qed

text \<open>
  The claim as stated fails. On the nine blocks at the 0.25 s cadence, flag clear, both
  engines fed the same chunks: the host finalizes on the ninth block, the eighth silent one,
  while the co-located engine, 1.75 s into the silence, finalizes nothing.
\<close>

theorem host_not_identical_counterexample:
  "map chunk nine_captures = map decode_pcm nine_blocks
   \<and> \<not> list_ex agent_speaking nine_captures
   \<and> snd (audio_stream rms host_init nine_blocks) ! 8 \<noteq> None
   \<and> snd (process_audio_stream rms default_settings endpoint_init nine_captures) ! 8 = None"
  by (simp add: ex_simps nine_blocks_def nine_captures_def)


subsection \<open>Sentence segmenter\<close>

lemma speak_stream_word_by_word:
  "speak_stream_loop [] [''Hi'', '' there.'', '' How'', '' are'', '' you?'', '' Fine'']
     = ([''Hi there.'', ''How are you?''], ''Fine'')
   \<and> speak_stream [''Hi'', '' there.'', '' How'', '' are'', '' you?'', '' Fine'']
     = [''Hi there.'', ''How are you?'', ''Fine'']"
  by code_simp

lemma split_sentences_example:
  "split_sentences ''Hi there. How are you? Fine'' = [''Hi there.'', ''How are you?'', ''Fine'']"
  by code_simp

text \<open>
  Claim C9 says that feeding \<open>Hi there. How are you? Fine\<close> as sequential fragments yields
  the segments \<open>Hi there.\<close> and \<open>How are you?\<close> during streaming and \<open>Fine\<close> after the stream
  ends. The loop searches the buffer once per fragment, so when the text arrives as a single
  fragment only \<open>Hi there.\<close> is spoken during streaming, and after the stream ends the rest
  is spoken as one segment, \<open>How are you? Fine\<close>.
\<close>

theorem speak_stream_single_fragment:
  "speak_stream_loop [] [''Hi there. How are you? Fine''] = ([''Hi there.''], ''How are you? Fine'')
   \<and> speak_stream [''Hi there. How are you? Fine''] = [''Hi there.'', ''How are you? Fine'']"
  by code_simp

subsection \<open>Reply audio on the wire\<close>

lemma hex_digit_value:
  assumes "n < 16"
  shows "digit_value (hex_digit n) = Some n \<and> \<not> ascii_space (hex_digit n)"
proof -
  have "list_all (\<lambda>k. digit_value (hex_digit k) = Some k \<and> \<not> ascii_space (hex_digit k)) [0..<16]"
    by code_simp
  with assms show ?thesis by (simp add: list_all_iff)
qed

lemma byte_of_nibbles: "(of_nat (16 * (unat b div 16) + unat b mod 16) :: byte) = b"
  by simp

lemma fromhex_hex: "fromhex (hex bs) = Some bs"
proof (induction bs)
  case Nil
  show ?case by (simp add: hex_def)
next
  case (Cons b bs)
  have d: "unat b div 16 < 16" "unat b mod 16 < 16"
    using unsigned_less [of b, where ?'a = nat] by (simp_all add: less_mult_imp_div_less)
  from Cons hex_digit_value [OF d(1)] hex_digit_value [OF d(2)]
  show ?case by (simp add: hex_def)
qed

lemma word_bytes_32:
  "word_bytes (v :: 32 word) = [ucast v, ucast (drop_bit 8 v), ucast (drop_bit 16 v), ucast (drop_bit 24 v)]"
  by (simp add: word_bytes_def upt_rec)

lemma word_bytes_64:
  "word_bytes (v :: 64 word) = [ucast v, ucast (drop_bit 8 v), ucast (drop_bit 16 v), ucast (drop_bit 24 v),
      ucast (drop_bit 32 v), ucast (drop_bit 40 v), ucast (drop_bit 48 v), ucast (drop_bit 56 v)]"
  by (simp add: word_bytes_def upt_rec)

lemma le32_bytes:
  "le32 (ucast v) (ucast (drop_bit 8 v)) (ucast (drop_bit 16 v)) (ucast (drop_bit 24 v)) = (v :: 32 word)"
  unfolding le32_def
proof (rule bit_word_eqI)
  fix n assume "n < LENGTH(32)"
  then consider "n < 8" | "8 \<le> n \<and> n < 16" | "16 \<le> n \<and> n < 24" | "24 \<le> n \<and> n < 32"
    by (simp, arith)
  then show "bit (ucast (ucast v :: byte) OR push_bit 8 (ucast (ucast (drop_bit 8 v) :: byte))
       OR push_bit 16 (ucast (ucast (drop_bit 16 v) :: byte))
       OR push_bit 24 (ucast (ucast (drop_bit 24 v) :: byte)) :: 32 word) n = bit v n"
    by cases (auto simp: bit_simps)
qed

lemma frombuffer_tobytes_32: "frombuffer_f32 (tobytes (vs :: 32 word list)) = Some vs"
  by (induction vs) (simp_all add: tobytes_def word_bytes_32 le32_bytes)

lemma le32_low:
  "le32 (ucast v) (ucast (drop_bit 8 v)) (ucast (drop_bit 16 v)) (ucast (drop_bit 24 v))
     = (ucast (v :: 64 word) :: 32 word)"
  unfolding le32_def
proof (rule bit_word_eqI)
  fix n assume "n < LENGTH(32)"
  then consider "n < 8" | "8 \<le> n \<and> n < 16" | "16 \<le> n \<and> n < 24" | "24 \<le> n \<and> n < 32"
    by (simp, arith)
  then show "bit (ucast (ucast v :: byte) OR push_bit 8 (ucast (ucast (drop_bit 8 v) :: byte))
       OR push_bit 16 (ucast (ucast (drop_bit 16 v) :: byte))
       OR push_bit 24 (ucast (ucast (drop_bit 24 v) :: byte)) :: 32 word) n = bit (ucast v :: 32 word) n"
    by cases (auto simp: bit_simps)
qed

lemma le32_high:
  "le32 (ucast (drop_bit 32 v)) (ucast (drop_bit 40 v)) (ucast (drop_bit 48 v)) (ucast (drop_bit 56 v))
     = (ucast (drop_bit 32 (v :: 64 word)) :: 32 word)"
  using le32_low [of "drop_bit 32 v"] by (simp add: drop_bit_drop_bit)

lemma frombuffer_tobytes_64:
  "frombuffer_f32 (tobytes (vs :: 64 word list)) = Some (concat (map halves vs))"
  by (induction vs) (simp_all add: tobytes_def word_bytes_64 le32_low le32_high halves_def)

lemma receive_frame_send_audio:
  "receive_frame (send_audio audio_data sr) = Play (concat (map halves audio_data)) sr"
  by (simp add: receive_frame_def send_audio_def fromhex_hex frombuffer_tobytes_64)

lemma length_halves: "length (concat (map halves audio_data)) = 2 * length audio_data"
  by (induction audio_data) (simp_all add: halves_def)



lemma audio_frame_of_one_sample:
  "frame_data (send_audio [0x3FF0000000000000] 22050) = Some ''000000000000f03f''
   \<and> receive_frame (send_audio [0x3FF0000000000000] 22050) = Play [0, 0x3FF00000] 22050"
proof
  show "frame_data (send_audio [0x3FF0000000000000] 22050) = Some ''000000000000f03f''"
    by (simp add: send_audio_def tobytes_def word_bytes_64 hex_def hex_digit_def)
  show "receive_frame (send_audio [0x3FF0000000000000] 22050) = Play [0, 0x3FF00000] 22050"
    by (simp add: receive_frame_send_audio halves_def)
qed

text \<open>Called with \<open>save_file=False\<close>, \<open>speak\<close> returns \<open>None\<close> or bytes, never a path.\<close>

lemma speak_unsaved:
  "LocalTTS_speak tw text False = ReturnsNone
   \<or> (\<exists>bs. bs \<noteq> [] \<and> LocalTTS_speak tw text False = ReturnsBytes bs)"
  by (simp add: LocalTTS_speak_def CloudFallback_speak_premium_def returned_truthy_def Let_def
           split: option.splits)

text \<open>
  So the host sends an audio frame only if \<open>soundfile.read\<close> returns a buffer for a name made
  of the reply's bytes; and then the edge plays twice as many samples as the buffer holds.
\<close>

lemma reply_frames_text_only:
  "\<forall>bs. sf_read tw (ReturnsBytes bs) = None \<Longrightarrow> reply_frames tw text = [text_frame text]"
  using speak_unsaved [of tw "text"]
  by (auto simp: reply_frames_def Let_def returned_truthy_def)

lemma reply_audio_received:
  assumes "f \<in> set (tl (reply_frames tw txt))"
  shows "\<exists>audio_data sr. sf_read tw (LocalTTS_speak tw txt False) = Some (audio_data, sr)
           \<and> receive_frame f = Play (concat (map halves audio_data)) sr"
proof (cases "sf_read tw (LocalTTS_speak tw txt False)")
  case None
  have "tl (reply_frames tw txt) = []"
    unfolding reply_frames_def Let_def None by simp
  with assms show ?thesis by simp
next
  case (Some r)
  obtain audio_data sr where r: "r = (audio_data, sr)" by (cases r)
  have "tl (reply_frames tw txt) = [] \<or> tl (reply_frames tw txt) = [send_audio audio_data sr]"
    unfolding reply_frames_def Let_def Some r by simp
  with assms have "f = send_audio audio_data sr"
    by auto
  with Some r show ?thesis by (simp add: receive_frame_send_audio)
qed


end
